theory Spec2Isabelle
  imports Complex_Main
begin

section \<open>Python strings\<close>

text \<open>
  A Python \<open>str\<close> is modelled as a \<open>string\<close>: a list of 8-bit characters, each read as
  the code point of that number (the Latin-1 range). On that range \<open>py_lower\<close> is
  \<open>str.lower\<close>, \<open>py_repr\<close> is \<open>repr\<close> of a \<open>str\<close>, \<open>py_in\<close> is the
  substring test \<open>kw in s\<close> and \<open>py_join\<close> is \<open>sep.join(xs)\<close>.
\<close>

definition lower_char :: "char \<Rightarrow> char" where
  "lower_char c =
     (let n = (of_char c :: nat)
      in if (65 \<le> n \<and> n \<le> 90) \<or> (192 \<le> n \<and> n \<le> 222 \<and> n \<noteq> 215)
         then char_of (n + 32) else c)"

definition py_lower :: "string \<Rightarrow> string" where
  "py_lower s = map lower_char s"

fun startswith :: "string \<Rightarrow> string \<Rightarrow> bool" where
  "startswith s [] = True"
| "startswith [] (p # ps) = False"
| "startswith (c # cs) (p # ps) = (c = p \<and> startswith cs ps)"

fun py_in :: "string \<Rightarrow> string \<Rightarrow> bool" where
  "py_in kw [] = (kw = [])"
| "py_in kw (c # cs) = (startswith (c # cs) kw \<or> py_in kw cs)"

fun py_join :: "string \<Rightarrow> string list \<Rightarrow> string" where
  "py_join sep [] = []"
| "py_join sep [x] = x"
| "py_join sep (x # y # ys) = x @ sep @ py_join sep (y # ys)"

definition hex2 :: "nat \<Rightarrow> string" where
  "hex2 n = [''0123456789abcdef'' ! (n div 16), ''0123456789abcdef'' ! (n mod 16)]"

text \<open>
  \<open>repr\<close> of a string: the quote is the double quote exactly when the string holds a
  single quote and no double quote; the quote and the backslash are escaped, tab, newline
  and carriage return have their letters, and every other character that is not
  printable (below the space, 127 to 160, and 173) is written \<open>\xNN\<close>.
\<close>

definition py_repr_char :: "char \<Rightarrow> char \<Rightarrow> string" where
  "py_repr_char quote c =
     (let n = (of_char c :: nat)
      in if c = quote \<or> c = CHR 0x5C then [CHR 0x5C, c]
         else if n = 9 then [CHR 0x5C, CHR ''t'']
         else if n = 10 then [CHR 0x5C, CHR ''n'']
         else if n = 13 then [CHR 0x5C, CHR ''r'']
         else if n < 32 \<or> n = 127 \<or> (128 \<le> n \<and> n \<le> 160) \<or> n = 173
              then CHR 0x5C # CHR ''x'' # hex2 n
         else [c])"

definition py_repr :: "string \<Rightarrow> string" where
  "py_repr s =
     (let quote = (if CHR 0x27 \<in> set s \<and> CHR 0x22 \<notin> set s then CHR 0x22 else CHR 0x27)
      in quote # concat (map (py_repr_char quote) s) @ [quote])"

text \<open>
  \<open>str(tags)\<close> for the value of a fact's \<open>target_tags\<close>: a list of strings, or
  \<open>None\<close> when the graph node has no \<open>tags\<close> property.
\<close>

definition py_str_tags :: "string list option \<Rightarrow> string" where
  "py_str_tags tags =
     (case tags of
        None \<Rightarrow> ''None''
      | Some ts \<Rightarrow> ''['' @ py_join '', '' (map py_repr ts) @ '']'')"

text \<open>The characters \<open>a\<close> to \<open>z\<close>; every theme keyword is made of them.\<close>

definition lower_ascii :: "char \<Rightarrow> bool" where
  "lower_ascii c = (97 \<le> (of_char c :: nat) \<and> (of_char c :: nat) \<le> 122)"

section \<open>Exceptions\<close>

text \<open>
  An exception that the program raises itself is a value: \<open>AttributeError\<close> with its
  message, raised by \<open>None.lower()\<close>. \<open>py_str_exn\<close> is \<open>str(e)\<close>, and
  \<open>py_str_opt\<close> is \<open>str\<close> (and the rendering inside an f-string) of a value that is
  a string or \<open>None\<close>.
\<close>

datatype exn = AttributeError string

definition none_has_no_lower :: string where
  "none_has_no_lower =
     [CHR 0x27] @ ''NoneType'' @ [CHR 0x27] @ '' object has no attribute '' @
     [CHR 0x27] @ ''lower'' @ [CHR 0x27]"

definition py_str_exn :: "exn \<Rightarrow> string" where
  "py_str_exn e = (case e of AttributeError msg \<Rightarrow> msg)"

definition py_str_opt :: "string option \<Rightarrow> string" where
  "py_str_opt v = (case v of None \<Rightarrow> ''None'' | Some s \<Rightarrow> s)"

section \<open>Graph facts and the theme filter\<close>

text \<open>
  The dictionary that \<open>fetch_graph_context\<close> builds for each relationship. All eight
  keys are always present. The source id and the relationship type are strings and the
  labels are a list of strings. The id, name, type and tags of the target are properties
  of the node, stored as the query returns them: \<open>None\<close> for a node without the
  property. The description is a string: the empty string replaces a missing one when the
  fact is built.
\<close>

record fact =
  source :: string
  rel :: string
  target_id :: "string option"
  target_name :: "string option"
  target_type :: "string option"
  target_desc :: string
  target_tags :: "string list option"
  labels :: "string list"

definition theme_keywords :: "(string \<times> string list) list" where
  "theme_keywords =
     [(''romantic'', [''romantic'', ''couple'', ''sunset'', ''beach'', ''spa'', ''dinner'', ''cruise'']),
      (''adventure'', [''hiking'', ''trekking'', ''mountain'', ''adventure'', ''rafting'', ''cycling'']),
      (''cultural'', [''temple'', ''museum'', ''historical'', ''culture'', ''heritage'', ''traditional'']),
      (''family'', [''family'', ''kids'', ''zoo'', ''park'', ''entertainment''])]"

text \<open>The fixed enumeration of themes: the keys of \<open>theme_keywords\<close>.\<close>

definition theme_names :: "string list" where
  "theme_names = [''romantic'', ''adventure'', ''cultural'', ''family'']"

text \<open>\<open>theme_keywords.get(theme.lower(), [])\<close>\<close>

definition keywords_of :: "string \<Rightarrow> string list" where
  "keywords_of theme =
     (case map_of theme_keywords (py_lower theme) of None \<Rightarrow> [] | Some kws \<Rightarrow> kws)"

text \<open>
  The condition of the loop body: \<open>any(kw in str(tags).lower() or kw in desc or kw in name
  for kw in keywords)\<close>, for the lower-cased rendering of the tags, the lower-cased
  description and the lower-cased name.
\<close>

definition any_keyword :: "string list \<Rightarrow> string \<Rightarrow> string \<Rightarrow> string \<Rightarrow> bool" where
  "any_keyword keywords tags_text desc name =
     list_ex (\<lambda>kw. py_in kw tags_text \<or> py_in kw desc \<or> py_in kw name) keywords"

text \<open>
  The \<open>for fact in facts\<close> loop, appending to \<open>filtered\<close> (the loop variable is \<open>f\<close>
  here). \<open>fact.get("target_name", "")\<close> is the stored name, since the key is present:
  on a name that is \<open>None\<close> the call of \<open>.lower()\<close> raises, before the keywords
  are tested.
\<close>

fun filter_loop :: "string list \<Rightarrow> fact list \<Rightarrow> fact list \<Rightarrow> exn + fact list" where
  "filter_loop keywords [] filtered = Inr filtered"
| "filter_loop keywords (f # facts) filtered =
     (let tags = target_tags f;
          desc = py_lower (target_desc f)
      in case target_name f of
           None \<Rightarrow> Inl (AttributeError none_has_no_lower)
         | Some n \<Rightarrow>
             (let name = py_lower n
              in if any_keyword keywords (py_lower (py_str_tags tags)) desc name
                 then filter_loop keywords facts (filtered @ [f])
                 else filter_loop keywords facts filtered))"

definition filter_by_theme :: "fact list \<Rightarrow> string \<Rightarrow> exn + fact list" where
  "filter_by_theme facts theme =
     (let keywords = keywords_of theme
      in if keywords = [] then Inr facts
         else (case filter_loop keywords facts [] of
                 Inl e \<Rightarrow> Inl e
               | Inr filtered \<Rightarrow> Inr (if filtered \<noteq> [] then filtered else take 10 facts)))"

subsection \<open>The matching criterion in the words of the specification\<close>

text \<open>
  A keyword occurs in a text when the text is some prefix, the keyword, and some suffix.
  A fact mentions a keyword list when one of the keywords occurs in the lower-cased
  rendering of its whole tag list, in its lower-cased description or in its lower-cased
  name. \<open>fact_matches\<close> is the same test as the loop makes it, for a fact with a name.
\<close>

definition occurs_in :: "string \<Rightarrow> string \<Rightarrow> bool" where
  "occurs_in kw s = (\<exists>pre post. s = pre @ kw @ post)"

definition mentions :: "string list \<Rightarrow> fact \<Rightarrow> bool" where
  "mentions kws f =
     (\<exists>kw \<in> set kws.
        occurs_in kw (py_lower (py_str_tags (target_tags f))) \<or>
        occurs_in kw (py_lower (target_desc f)) \<or>
        (\<exists>n. target_name f = Some n \<and> occurs_in kw (py_lower n)))"

definition fact_matches :: "string list \<Rightarrow> fact \<Rightarrow> bool" where
  "fact_matches keywords f =
     (case target_name f of
        None \<Rightarrow> False
      | Some n \<Rightarrow>
          any_keyword keywords (py_lower (py_str_tags (target_tags f)))
            (py_lower (target_desc f)) (py_lower n))"

subsection \<open>Sample facts\<close>

definition cruise_fact :: fact where
  "cruise_fact =
     \<lparr>source = ''city_hanoi'', rel = ''Located_In'', target_id = Some ''activity_7'',
      target_name = Some ''Sunset Cruise'', target_type = Some ''Activity'',
      target_desc = ''An evening on the water'', target_tags = Some [''boat''],
      labels = [''Entity'', ''Activity'']\<rparr>"

definition museum_fact :: fact where
  "museum_fact =
     \<lparr>source = ''city_hanoi'', rel = ''Located_In'', target_id = Some ''attraction_3'',
      target_name = Some ''Museum of Ethnology'', target_type = Some ''Attraction'',
      target_desc = ''Exhibits on the ethnic groups'', target_tags = Some [''history''],
      labels = [''Entity'', ''Attraction'']\<rparr>"

definition hotel_fact :: fact where
  "hotel_fact =
     \<lparr>source = ''city_hue'', rel = ''Located_In'', target_id = Some ''hotel_12'',
      target_name = Some ''Riverside Hotel'', target_type = Some ''Hotel'',
      target_desc = ''Rooms by the river'', target_tags = Some [''Spacious'', ''quiet''],
      labels = [''Entity'', ''Hotel'']\<rparr>"

text \<open>A fact for a node that has the tag \<open>beach\<close> and no name.\<close>

definition nameless_fact :: fact where
  "nameless_fact =
     \<lparr>source = ''city_danang'', rel = ''Near'', target_id = Some ''attraction_8'',
      target_name = None, target_type = Some ''Attraction'',
      target_desc = [], target_tags = Some [''beach''],
      labels = [''Entity'', ''Attraction'']\<rparr>"

section \<open>External services and the state of the process\<close>

text \<open>
  The program calls an embedding service, a vector index, a graph database and a chat
  service, hashes with \<open>hashlib.md5\<close>, formats a score with \<open>:.3f\<close> and reads
  \<open>config.PINECONE_VECTOR_DIM\<close>. None of these is defined in the repository, so each is
  a field of \<open>env\<close>. A call that raises is \<open>Inl\<close> of the exception's message
  (\<open>str(e)\<close>), a call that returns is \<open>Inr\<close> of what the program reads from the
  response. The arguments that are the same in every call (the model names,
  \<open>max_tokens\<close>, \<open>temperature\<close>, \<open>include_metadata\<close>, \<open>include_values\<close>) belong to
  the service. The embedding service may answer the same text differently at different
  times: it is given the number of requests made before.
\<close>

type_synonym vector = "real list"

record metadata =
  md_name :: "string option"
  md_type :: "string option"
  md_city :: "string option"
  md_tags :: "string list option"

record vmatch =
  match_id :: string
  match_score :: "real option"
  match_metadata :: "metadata option"

text \<open>
  A record of the per-entity query \<open>q1\<close> and a record of the city query \<open>q2\<close>. The
  relationship type and the labels are always there; a property of a node is \<open>None\<close>
  when the node does not have it. The city that a connection starts from has an id, one
  of the ids the query was given.
\<close>

record row =
  r_rel :: string
  r_labels :: "string list"
  r_id :: "string option"
  r_name :: "string option"
  r_type :: "string option"
  r_description :: "string option"
  r_tags :: "string list option"

record connection =
  from_city :: string
  to_city :: "string option"
  to_city_name :: "string option"

record message =
  role :: string
  content :: string

text \<open>
  \<open>neighbours\<close> is what running \<open>q1\<close> for an id gives: the records that the program
  reads from the result, in order, and the message of the exception that ends the
  reading, if one is raised (by \<open>session.run\<close> itself, with no record read, or while
  the records are read). \<open>city_links\<close> is what running \<open>q2\<close> gives: the exception,
  or the records. Both are the records that the \<open>MATCH\<close> (and \<open>WHERE\<close>) part of
  the query selects; the \<open>LIMIT\<close> of each query is applied in \<open>run_q1\<close> and
  \<open>run_q2\<close>.
\<close>

record env =
  md5_hexdigest :: "string \<Rightarrow> string"
  format_3f :: "real \<Rightarrow> string"
  vector_dim :: nat
  embeddings_create :: "nat \<Rightarrow> string \<Rightarrow> string + vector"
  index_query :: "vector \<Rightarrow> nat \<Rightarrow> string + vmatch list"
  neighbours :: "string \<Rightarrow> row list \<times> string option"
  city_links :: "string list \<Rightarrow> string + connection list"
  chat_create :: "message list \<Rightarrow> string + string"

datatype cypher = Q1 string | Q2 "string list"

text \<open>
  The state: \<open>EMBEDDING_CACHE\<close> and the lines printed so far; and, to state what was
  requested, the texts sent to the embedding service and the queries run on the graph
  session.
\<close>

record state =
  cache :: "string \<rightharpoonup> vector"
  stdout :: "string list"
  embed_requests :: "string list"
  graph_queries :: "cypher list"

definition TOP_K :: nat where
  "TOP_K = 5"

text \<open>
  The program text has three characters beyond the Latin-1 range (U+2713, U+2717 and
  U+2192); they are written as their UTF-8 bytes.
\<close>

definition check_mark :: string where
  "check_mark = [CHR 0xE2, CHR 0x9C, CHR 0x93]"

definition ballot_x :: string where
  "ballot_x = [CHR 0xE2, CHR 0x9C, CHR 0x97]"

definition right_arrow :: string where
  "right_arrow = [CHR 0xE2, CHR 0x86, CHR 0x92]"

definition nl :: string where
  "nl = [CHR 0x0A]"

fun py_str_nat :: "nat \<Rightarrow> string" where
  "py_str_nat n =
     (if n < 10 then [''0123456789'' ! n]
      else py_str_nat (n div 10) @ [''0123456789'' ! (n mod 10)])"

declare py_str_nat.simps [simp del]

section \<open>Embedding with the cache\<close>

definition embed_text :: "env \<Rightarrow> state \<Rightarrow> string \<Rightarrow> vector \<times> state" where
  "embed_text env st text =
     (let cache_key = md5_hexdigest env text
      in case cache st cache_key of
           Some v \<Rightarrow> (v, st)
         | None \<Rightarrow>
             (let st1 = st\<lparr>embed_requests := embed_requests st @ [text]\<rparr>
              in case embeddings_create env (length (embed_requests st)) text of
                   Inr embedding \<Rightarrow>
                     (embedding, st1\<lparr>cache := (cache st1)(cache_key \<mapsto> embedding)\<rparr>)
                 | Inl e \<Rightarrow>
                     (replicate (vector_dim env) 0,
                      st1\<lparr>stdout := stdout st1 @ [''Error generating embedding: '' @ e]\<rparr>)))"

section \<open>Vector retrieval\<close>

definition pinecone_query :: "env \<Rightarrow> state \<Rightarrow> string \<Rightarrow> nat \<Rightarrow> vmatch list \<times> state" where
  "pinecone_query env st query_text top_k =
     (let (vec, st1) = embed_text env st query_text
      in case index_query env vec top_k of
           Inr matches \<Rightarrow>
             (matches,
              st1\<lparr>stdout := stdout st1 @
                [check_mark @ '' Pinecone returned '' @ py_str_nat (length matches) @ '' results'']\<rparr>)
         | Inl e \<Rightarrow>
             ([], st1\<lparr>stdout := stdout st1 @ [ballot_x @ '' Pinecone query failed: '' @ e]\<rparr>))"

text \<open>\<open>m.get("score", 0)\<close>\<close>

definition score_of :: "vmatch \<Rightarrow> real" where
  "score_of m = (case match_score m of None \<Rightarrow> 0 | Some s \<Rightarrow> s)"

section \<open>Graph expansion\<close>

text \<open>
  \<open>session.run(q1, nid=nid)\<close> with the reading of its records, and
  \<open>session.run(q2, city_ids=city_ids)\<close>. The records of \<open>q1\<close> are appended to
  \<open>facts\<close> one by one inside the \<open>try\<close>, so those read before a failure stay; the
  records of \<open>q2\<close> are assigned to \<open>city_connections\<close> only when all are read.
  The session is taken as acquired: the program checks the connection when it starts
  and exits if that fails, and the driver stays open for the life of the process.
\<close>

definition run_q1 :: "env \<Rightarrow> string \<Rightarrow> row list \<times> string option" where
  "run_q1 env nid = (case neighbours env nid of (recs, failure) \<Rightarrow> (take 10 recs, failure))"

definition run_q2 :: "env \<Rightarrow> string list \<Rightarrow> string + connection list" where
  "run_q2 env city_ids =
     (case city_links env city_ids of Inl e \<Rightarrow> Inl e | Inr recs \<Rightarrow> Inr (take 5 recs))"

definition make_fact :: "string \<Rightarrow> row \<Rightarrow> fact" where
  "make_fact nid r =
     \<lparr>source = nid, rel = r_rel r, target_id = r_id r, target_name = r_name r,
      target_type = r_type r,
      target_desc = take 400 (case r_description r of None \<Rightarrow> [] | Some d \<Rightarrow> d),
      target_tags = r_tags r, labels = r_labels r\<rparr>"

text \<open>
  The \<open>for nid in node_ids\<close> loop: the facts of the records read are appended, and a
  failure is printed; either way the loop goes on with the next id.
\<close>

fun fetch_loop :: "env \<Rightarrow> string list \<Rightarrow> fact list \<times> state \<Rightarrow> fact list \<times> state" where
  "fetch_loop env [] (facts, st) = (facts, st)"
| "fetch_loop env (nid # node_ids) (facts, st) =
     (let st1 = st\<lparr>graph_queries := graph_queries st @ [Q1 nid]\<rparr>
      in case run_q1 env nid of
           (recs, None) \<Rightarrow> fetch_loop env node_ids (facts @ map (make_fact nid) recs, st1)
         | (recs, Some e) \<Rightarrow>
             fetch_loop env node_ids
               (facts @ map (make_fact nid) recs,
                st1\<lparr>stdout := stdout st1 @
                  [''Error fetching graph context for '' @ nid @ '': '' @ e]\<rparr>))"

definition city_ids_of :: "fact list \<Rightarrow> string list" where
  "city_ids_of facts = map source (filter (\<lambda>f. ''City'' \<in> set (labels f)) facts)"

definition fetch_graph_context ::
  "env \<Rightarrow> state \<Rightarrow> string list \<Rightarrow> fact list \<times> connection list \<times> state" where
  "fetch_graph_context env st node_ids =
     (let (facts, st1) = fetch_loop env node_ids ([], st);
          city_ids = city_ids_of facts;
          (city_connections, st2) =
            (if city_ids \<noteq> [] then
               (let st1' = st1\<lparr>graph_queries := graph_queries st1 @ [Q2 city_ids]\<rparr>
                in case run_q2 env city_ids of
                     Inr city_recs \<Rightarrow> (city_recs, st1')
                   | Inl e \<Rightarrow>
                       ([], st1'\<lparr>stdout := stdout st1' @
                              [''Error fetching city connections: '' @ e]\<rparr>))
             else ([], st1))
      in (facts, city_connections,
          st2\<lparr>stdout := stdout st2 @
            [check_mark @ '' Neo4j returned '' @ py_str_nat (length facts) @
             '' relationships + '' @ py_str_nat (length city_connections) @
             '' city connections'']\<rparr>))"

subsection \<open>The expansion in the words of the specification\<close>

text \<open>
  The facts of one entity id: one fact for each of the first 10 records read for it. The
  line printed for an id whose query fails. The connections for a list of city ids: none
  when the list is empty or the query fails, otherwise the first 5 records.
\<close>

definition facts_for :: "env \<Rightarrow> string \<Rightarrow> fact list" where
  "facts_for env nid = map (make_fact nid) (take 10 (fst (neighbours env nid)))"

definition error_lines_for :: "env \<Rightarrow> string \<Rightarrow> string list" where
  "error_lines_for env nid =
     (case snd (neighbours env nid) of
        None \<Rightarrow> []
      | Some e \<Rightarrow> [''Error fetching graph context for '' @ nid @ '': '' @ e])"

definition connections_for :: "env \<Rightarrow> string list \<Rightarrow> connection list" where
  "connections_for env city_ids =
     (if city_ids = [] then []
      else case city_links env city_ids of Inl e \<Rightarrow> [] | Inr recs \<Rightarrow> take 5 recs)"

text \<open>The last line printed, and the state after the loop over the ids.\<close>

definition summary_line :: "fact list \<Rightarrow> connection list \<Rightarrow> string" where
  "summary_line facts conns =
     check_mark @ '' Neo4j returned '' @ py_str_nat (length facts) @
     '' relationships + '' @ py_str_nat (length conns) @ '' city connections''"

definition after_loop :: "env \<Rightarrow> state \<Rightarrow> string list \<Rightarrow> state" where
  "after_loop env st ids =
     st\<lparr>graph_queries := graph_queries st @ map Q1 ids,
        stdout := stdout st @ concat (map (error_lines_for env) ids)\<rparr>"

text \<open>The queries that are the city-connectivity query \<open>q2\<close>.\<close>

definition is_city_query :: "cypher \<Rightarrow> bool" where
  "is_city_query q = (case q of Q1 nid \<Rightarrow> False | Q2 city_ids \<Rightarrow> True)"

section \<open>Prompt assembly\<close>

definition system_prompt :: string where
  "system_prompt = py_join nl
     [''You are an expert Vietnam travel assistant specializing in creating personalized itineraries.'',
      '''',
      ''Your approach:'',
      ''1. ANALYZE the user'' @ [CHR 0x27] @ ''s preferences (duration, theme, interests)'',
      ''2. IDENTIFY the most relevant cities and attractions from the provided context'',
      ''3. STRUCTURE a day-by-day itinerary with logical flow'',
      ''4. INCLUDE specific node IDs as references (e.g., [attraction_123])'',
      ''5. PROVIDE practical tips (travel time, best times to visit)'',
      '''',
      ''Format your response as:'',
      ''- Brief introduction matching the theme'',
      ''- Day-by-day breakdown with morning/afternoon/evening activities'',
      ''- Accommodation suggestions'',
      ''- Practical travel tips'',
      '''',
      ''Be concise but detailed. Cite node IDs for credibility.'']"

text \<open>The theme of the query: the first of the four names that occurs in it.\<close>

definition detect_theme :: "string \<Rightarrow> string" where
  "detect_theme user_query =
     (if py_in ''romantic'' (py_lower user_query) then ''romantic''
      else if py_in ''adventure'' (py_lower user_query) then ''adventure''
      else if py_in ''cultural'' (py_lower user_query) then ''cultural''
      else if py_in ''family'' (py_lower user_query) then ''family''
      else '''')"

text \<open>\<open>d.get(key, 'N/A')\<close> on the metadata of a match, \<open>{}\<close> when the match has none.\<close>

definition meta_get :: "vmatch \<Rightarrow> (metadata \<Rightarrow> string option) \<Rightarrow> string" where
  "meta_get m field =
     (case match_metadata m of
        None \<Rightarrow> ''N/A''
      | Some meta \<Rightarrow> (case field meta of None \<Rightarrow> ''N/A'' | Some v \<Rightarrow> v))"

definition meta_tags :: "vmatch \<Rightarrow> string list" where
  "meta_tags m =
     (case match_metadata m of
        None \<Rightarrow> []
      | Some meta \<Rightarrow> (case md_tags meta of None \<Rightarrow> [] | Some ts \<Rightarrow> ts))"

definition render_match :: "env \<Rightarrow> vmatch \<Rightarrow> string" where
  "render_match env m =
     (let snippet =
            ''- ['' @ match_id m @ ''] '' @ meta_get m md_name @ '' ('' @ meta_get m md_type @
            '') in '' @ meta_get m md_city @ '' - Score: '' @ format_3f env (score_of m)
      in if meta_tags m \<noteq> []
         then snippet @ '' | Tags: '' @ py_join '', '' (take 3 (meta_tags m))
         else snippet)"

definition vec_context :: "env \<Rightarrow> vmatch list \<Rightarrow> string list" where
  "vec_context env pinecone_matches = map (render_match env) (take 8 pinecone_matches)"

definition fact_tags :: "fact \<Rightarrow> string list" where
  "fact_tags f = (case target_tags f of None \<Rightarrow> [] | Some ts \<Rightarrow> ts)"

definition render_fact :: "fact \<Rightarrow> string" where
  "render_fact f =
     (let relation =
            ''- ['' @ source f @ ''] --'' @ rel f @ ''--> ['' @ py_str_opt (target_id f) @
            ''] '' @ py_str_opt (target_name f) @ '' ('' @ py_str_opt (target_type f) @
            ''): '' @ take 200 (target_desc f)
      in if fact_tags f \<noteq> []
         then relation @ '' | Tags: '' @ py_join '', '' (take 3 (fact_tags f))
         else relation)"

definition graph_context :: "fact list \<Rightarrow> string list" where
  "graph_context graph_facts = map render_fact (take 20 graph_facts)"

definition city_context :: "connection list \<Rightarrow> string" where
  "city_context city_connections =
     (if city_connections \<noteq> []
      then nl @ nl @ ''City Connections (for multi-day planning):'' @ nl @
           py_join nl
             (map (\<lambda>c. ''- '' @ from_city c @ '' '' @ right_arrow @ '' '' @
                     py_str_opt (to_city_name c))
                city_connections)
      else [])"

text \<open>The lines of the semantic-match section: \<open>vec_context[:10]\<close>.\<close>

definition semantic_lines :: "env \<Rightarrow> vmatch list \<Rightarrow> string list" where
  "semantic_lines env pinecone_matches = take 10 (vec_context env pinecone_matches)"

definition semantic_header :: string where
  "semantic_header = ''=== TOP SEMANTIC MATCHES (from vector search) ==='' @ nl"

definition graph_header :: string where
  "graph_header = ''=== KNOWLEDGE GRAPH RELATIONSHIPS ==='' @ nl"

text \<open>The function raises when the theme filter does.\<close>

definition build_prompt ::
  "env \<Rightarrow> string \<Rightarrow> vmatch list \<Rightarrow> fact list \<Rightarrow> connection list \<Rightarrow> exn + message list" where
  "build_prompt env user_query pinecone_matches graph_facts city_connections =
     (let theme = detect_theme user_query
      in case (if theme \<noteq> [] \<and> graph_facts \<noteq> [] then filter_by_theme graph_facts theme
               else Inr graph_facts) of
           Inl e \<Rightarrow> Inl e
         | Inr graph_facts' \<Rightarrow>
             Inr [\<lparr>role = ''system'', content = system_prompt\<rparr>,
                  \<lparr>role = ''user'',
                   content =
                     ''User Query: '' @ user_query @ nl @ nl @
                     semantic_header @
                     py_join nl (semantic_lines env pinecone_matches) @ nl @ nl @
                     graph_header @
                     py_join nl (take 20 (graph_context graph_facts')) @
                     city_context city_connections @ nl @ nl @
                     ''Based on the above context, create a detailed response. '' @
                     ''Use node IDs in [brackets] when referencing specific places.''\<rparr>])"

section \<open>Completion and the request handler\<close>

definition call_chat :: "env \<Rightarrow> message list \<Rightarrow> string" where
  "call_chat env prompt_messages =
     (case chat_create env prompt_messages of
        Inr answer \<Rightarrow> answer
      | Inl e \<Rightarrow> ''Error calling OpenAI: '' @ e)"

text \<open>\<open>str.strip()\<close>: the white space of the Latin-1 range is removed at both ends.\<close>

definition py_isspace :: "char \<Rightarrow> bool" where
  "py_isspace c =
     (let n = (of_char c :: nat)
      in (9 \<le> n \<and> n \<le> 13) \<or> (28 \<le> n \<and> n \<le> 32) \<or> n = 133 \<or> n = 160)"

definition py_strip :: "string \<Rightarrow> string" where
  "py_strip s = rev (dropWhile py_isspace (rev (dropWhile py_isspace s)))"

text \<open>
  The response of \<open>/ask\<close>: the JSON object \<open>{"answer": ...}\<close>, or \<open>{"error": ...}\<close> with
  its status: 400 for an empty query, 500 with \<open>str(e)\<close> when the pipeline raises.
  Retrieval, graph expansion and completion catch their own failures and return; the
  prompt assembly can raise.
\<close>

datatype response = Answer string | Error string nat

definition ask :: "env \<Rightarrow> state \<Rightarrow> string option \<Rightarrow> response \<times> state" where
  "ask env st query_field =
     (let query = py_strip (case query_field of None \<Rightarrow> [] | Some q \<Rightarrow> q)
      in if query = [] then (Error ''Empty query'' 400, st)
         else (let (matches, st1) = pinecone_query env st query TOP_K;
                   match_ids = map match_id matches;
                   (graph_facts, city_connections, st2) = fetch_graph_context env st1 match_ids
               in case build_prompt env query matches graph_facts city_connections of
                    Inl e \<Rightarrow> (Error (py_str_exn e) 500, st2)
                  | Inr prompt \<Rightarrow>
                      (let answer = call_chat env prompt in (Answer answer, st2))))"

text \<open>
  To state what the handler sends to the chat service: the prompt it builds for a
  (stripped) query, when building it does not raise.
\<close>

definition ask_prompt :: "env \<Rightarrow> state \<Rightarrow> string \<Rightarrow> exn + message list" where
  "ask_prompt env st query =
     (let (matches, st1) = pinecone_query env st query TOP_K;
          (graph_facts, city_connections, st2) =
            fetch_graph_context env st1 (map match_id matches)
      in build_prompt env query matches graph_facts city_connections)"

section \<open>Sample services and states\<close>

text \<open>
  Services for the concrete cases below. In \<open>sample_env\<close> the embedding service always
  answers, the index rejects \<open>top_k = 0\<close>, the graph query fails for \<open>hotel_9\<close> before
  a record is read and six cities are linked to Hanoi. The embedding service of
  \<open>flaky_env\<close> fails on the first request and answers afterwards; the city query of
  \<open>graph_down_env\<close> and the chat service of \<open>chat_down_env\<close> fail; the index of
  \<open>unruly_env\<close> answers every query with three matches in increasing order of score;
  every graph query of \<open>lossy_env\<close> fails after one record is read.
\<close>

definition fresh_state :: state where
  "fresh_state = \<lparr>cache = Map.empty, stdout = [], embed_requests = [], graph_queries = []\<rparr>"

definition sample_matches :: "vmatch list" where
  "sample_matches =
     [\<lparr>match_id = ''attraction_1'', match_score = Some 0.92,
       match_metadata = Some \<lparr>md_name = Some ''Hoan Kiem Lake'', md_type = Some ''Attraction'',
         md_city = Some ''Hanoi'', md_tags = Some [''lake'', ''sunset'', ''walk'', ''old quarter'']\<rparr>\<rparr>,
      \<lparr>match_id = ''hotel_9'', match_score = Some 0.81,
       match_metadata = Some \<lparr>md_name = Some ''Lotus Hotel'', md_type = None,
         md_city = Some ''Hue'', md_tags = None\<rparr>\<rparr>,
      \<lparr>match_id = ''city_hue'', match_score = Some 0.64, match_metadata = None\<rparr>]"

definition twelve_matches :: "vmatch list" where
  "twelve_matches = concat (replicate 4 sample_matches)"

definition sample_format :: "real \<Rightarrow> string" where
  "sample_format x =
     (if x = 0.92 then ''0.920'' else if x = 0.81 then ''0.810''
      else if x = 0.64 then ''0.640'' else ''0.000'')"

definition hanoi_row :: row where
  "hanoi_row =
     \<lparr>r_rel = ''Located_In'', r_labels = [''Entity'', ''City''], r_id = Some ''city_hanoi'',
      r_name = Some ''Hanoi'', r_type = Some ''City'', r_description = Some ''Capital of Vietnam'',
      r_tags = Some [''culture'', ''food'']\<rparr>"

definition cafe_row :: row where
  "cafe_row =
     \<lparr>r_rel = ''Near'', r_labels = [''Entity'', ''Activity''], r_id = Some ''activity_4'',
      r_name = Some ''Egg Coffee Tasting'', r_type = Some ''Activity'', r_description = None,
      r_tags = None\<rparr>"

definition sample_neighbours :: "string \<Rightarrow> row list \<times> string option" where
  "sample_neighbours nid =
     (if nid = ''attraction_1'' then ([hanoi_row, cafe_row], None)
      else if nid = ''hotel_9'' then ([], Some ''ServiceUnavailable'')
      else ([], None))"

definition sample_links :: "connection list" where
  "sample_links =
     map (\<lambda>(i, n). \<lparr>from_city = ''city_hanoi'', to_city = Some i, to_city_name = Some n\<rparr>)
       [(''city_hue'', ''Hue''), (''city_danang'', ''Da Nang''), (''city_hoian'', ''Hoi An''),
        (''city_sapa'', ''Sapa''), (''city_halong'', ''Ha Long''), (''city_hcm'', ''Ho Chi Minh City'')]"

definition sample_env :: env where
  "sample_env =
     \<lparr>md5_hexdigest = (\<lambda>t. ''md5:'' @ t),
      format_3f = sample_format,
      vector_dim = 2,
      embeddings_create = (\<lambda>n t. Inr [1, 2]),
      index_query =
        (\<lambda>v k. if k = 0 then Inl ''top_k must be positive'' else Inr (take k sample_matches)),
      neighbours = sample_neighbours,
      city_links = (\<lambda>ids. Inr sample_links),
      chat_create = (\<lambda>ms. Inr ''A three-day plan'')\<rparr>"

definition flaky_env :: env where
  "flaky_env =
     sample_env\<lparr>embeddings_create := (\<lambda>n t. if n = 0 then Inl ''timeout'' else Inr [1, 2])\<rparr>"

definition graph_down_env :: env where
  "graph_down_env = sample_env\<lparr>city_links := (\<lambda>ids. Inl ''SessionExpired'')\<rparr>"

definition chat_down_env :: env where
  "chat_down_env = sample_env\<lparr>chat_create := (\<lambda>ms. Inl ''rate limit reached'')\<rparr>"


definition lossy_env :: env where
  "lossy_env = sample_env\<lparr>neighbours := (\<lambda>nid. ([cafe_row], Some ''ConnectionLost''))\<rparr>"

section \<open>Properties of the theme filter\<close>

lemma startswith_append: "startswith s p \<longleftrightarrow> (\<exists>post. s = p @ post)"
  by (induction s p rule: startswith.induct) auto

lemma occurs_in_Nil: "occurs_in kw [] \<longleftrightarrow> kw = []"
  by (simp add: occurs_in_def)

lemma occurs_in_Cons:
  "occurs_in kw (c # cs) \<longleftrightarrow> (\<exists>post. c # cs = kw @ post) \<or> occurs_in kw cs"
proof
  assume "occurs_in kw (c # cs)"
  then obtain pre post where eq: "c # cs = pre @ kw @ post"
    by (auto simp: occurs_in_def)
  show "(\<exists>post. c # cs = kw @ post) \<or> occurs_in kw cs"
  proof (cases pre)
    case Nil
    with eq show ?thesis by auto
  next
    case (Cons d pre')
    with eq have "cs = pre' @ kw @ post" by simp
    then show ?thesis by (auto simp: occurs_in_def)
  qed
next
  assume "(\<exists>post. c # cs = kw @ post) \<or> occurs_in kw cs"
  then show "occurs_in kw (c # cs)"
  proof
    assume "\<exists>post. c # cs = kw @ post"
    then obtain post where "c # cs = [] @ kw @ post" by auto
    then show ?thesis unfolding occurs_in_def by blast
  next
    assume "occurs_in kw cs"
    then obtain pre post where "cs = pre @ kw @ post" by (auto simp: occurs_in_def)
    then have "c # cs = (c # pre) @ kw @ post" by simp
    then show ?thesis unfolding occurs_in_def by blast
  qed
qed

lemma py_in_occurs_in: "py_in kw s \<longleftrightarrow> occurs_in kw s"
  by (induction s) (simp_all add: occurs_in_Nil occurs_in_Cons startswith_append)

lemma fact_matches_mentions:
  "target_name f \<noteq> None \<Longrightarrow> fact_matches kws f \<longleftrightarrow> mentions kws f"
  by (auto simp: fact_matches_def any_keyword_def mentions_def list_ex_iff py_in_occurs_in)

lemma filter_loop_named:
  "\<forall>f \<in> set facts. target_name f \<noteq> None \<Longrightarrow>
   filter_loop kws facts filtered = Inr (filtered @ filter (fact_matches kws) facts)"
proof (induction facts arbitrary: filtered)
  case Nil
  then show ?case by simp
next
  case (Cons f facts)
  then obtain n where n: "target_name f = Some n" by auto
  from Cons.prems have rest: "\<forall>f \<in> set facts. target_name f \<noteq> None" by simp
  show ?case
    by (simp add: n Let_def fact_matches_def Cons.IH [OF rest])
qed

lemma filter_loop_nameless:
  "\<exists>f \<in> set facts. target_name f = None \<Longrightarrow>
   filter_loop kws facts filtered = Inl (AttributeError none_has_no_lower)"
proof (induction facts arbitrary: filtered)
  case Nil
  then show ?case by simp
next
  case (Cons f facts)
  show ?case
  proof (cases "target_name f")
    case None
    then show ?thesis by (simp add: Let_def)
  next
    case (Some n)
    with Cons.prems have "\<exists>f \<in> set facts. target_name f = None" by auto
    then show ?thesis by (simp add: Some Let_def Cons.IH)
  qed
qed

lemma theme_names_keys: "theme_names = map fst theme_keywords"
  by (simp add: theme_names_def theme_keywords_def)

lemma keywords_of_unmapped:
  "py_lower theme \<notin> set theme_names \<Longrightarrow> keywords_of theme = []"
  by (simp add: keywords_of_def theme_keywords_def theme_names_def)

lemma keywords_of_mapped:
  "py_lower theme \<in> set theme_names \<Longrightarrow> keywords_of theme \<noteq> []"
  by (auto simp: keywords_of_def theme_keywords_def theme_names_def)

lemma filter_by_theme_no_keywords:
  "keywords_of theme = [] \<Longrightarrow> filter_by_theme facts theme = Inr facts"
  by (simp add: filter_by_theme_def)

lemma filter_by_theme_mapped:
  "keywords_of theme \<noteq> [] \<Longrightarrow> \<forall>f \<in> set facts. target_name f \<noteq> None \<Longrightarrow>
   filter_by_theme facts theme =
     Inr (if filter (fact_matches (keywords_of theme)) facts \<noteq> []
          then filter (fact_matches (keywords_of theme)) facts else take 10 facts)"
  by (simp add: filter_by_theme_def filter_loop_named Let_def)

text \<open>
  For a theme with keywords, a fact whose name is \<open>None\<close> makes the filter raise,
  whatever its tags are.
\<close>

lemma filter_by_theme_nameless:
  "keywords_of theme \<noteq> [] \<Longrightarrow> \<exists>f \<in> set facts. target_name f = None \<Longrightarrow>
   filter_by_theme facts theme = Inl (AttributeError none_has_no_lower)"
  by (simp add: filter_by_theme_def filter_loop_nameless Let_def)

lemma nameless_fact_raises:
  "filter_by_theme [cruise_fact, nameless_fact] ''romantic'' =
     Inl (AttributeError none_has_no_lower)"
  by code_simp

lemma cruise_matches_romantic: "fact_matches (keywords_of ''romantic'') cruise_fact"
  by code_simp

lemma museum_not_romantic: "\<not> fact_matches (keywords_of ''romantic'') museum_fact"
  by code_simp

lemma keywords_of_wellness: "keywords_of ''wellness'' = []"
  by code_simp

lemma lower_wellness_unmapped: "py_lower ''wellness'' \<notin> set theme_names"
  by code_simp

lemma lower_romantic_mapped: "py_lower ''romantic'' \<in> set theme_names"
  by code_simp

lemma ROMANTIC_not_a_name: "''ROMANTIC'' \<notin> set theme_names"
  by code_simp

lemma ROMANTIC_on_cruise_museum:
  "filter_by_theme [cruise_fact, museum_fact] ''ROMANTIC'' = Inr [cruise_fact]"
  by code_simp

subsection \<open>Keywords inside tags\<close>



lemma lower_ascii_is_letter:
  assumes "lower_ascii (lower_char c)"
  shows "(65 \<le> (of_char c :: nat) \<and> (of_char c :: nat) \<le> 90) \<or>
         (97 \<le> (of_char c :: nat) \<and> (of_char c :: nat) \<le> 122)"
  using assms
  by (auto simp: lower_ascii_def lower_char_def Let_def split: if_splits)

lemma repr_char_letter:
  assumes "lower_ascii (lower_char c)" and "(of_char q :: nat) < 65"
  shows "py_repr_char q c = [c]"
proof -
  let ?n = "of_char c :: nat"
  from assms(1) have rng: "(65 \<le> ?n \<and> ?n \<le> 90) \<or> (97 \<le> ?n \<and> ?n \<le> 122)"
    by (rule lower_ascii_is_letter)
  have "c \<noteq> q" using rng assms(2) by auto
  moreover have "c \<noteq> CHR 0x5C" using rng by auto
  ultimately show ?thesis using rng
    by (auto simp: py_repr_char_def Let_def)
qed

lemma repr_chars_letters:
  "list_all lower_ascii (py_lower u) \<Longrightarrow> (of_char q :: nat) < 65 \<Longrightarrow>
   concat (map (py_repr_char q) u) = u"
  by (induction u) (simp_all add: py_lower_def repr_char_letter)

lemma occurs_in_extend: "occurs_in kw s \<Longrightarrow> occurs_in kw (a @ s @ b)"
proof -
  assume "occurs_in kw s"
  then obtain pre post where "s = pre @ kw @ post" by (auto simp: occurs_in_def)
  then have "a @ s @ b = (a @ pre) @ kw @ (post @ b)" by simp
  then show ?thesis unfolding occurs_in_def by blast
qed

lemma py_lower_append: "py_lower (a @ b) = py_lower a @ py_lower b"
  by (simp add: py_lower_def)

lemma occurs_in_lower_escaped:
  assumes occ: "occurs_in kw (py_lower t)" and kw: "list_all lower_ascii kw"
    and q: "(of_char q :: nat) < 65"
  shows "occurs_in kw (py_lower (concat (map (py_repr_char q) t)))"
proof -
  from occ obtain pre post where "map lower_char t = pre @ kw @ post"
    by (auto simp: occurs_in_def py_lower_def)
  then obtain p r where t: "t = p @ r" and "map lower_char r = kw @ post"
    by (metis map_eq_append_conv)
  then obtain u s where r: "r = u @ s" and u: "map lower_char u = kw"
    by (metis map_eq_append_conv)
  from u kw have "list_all lower_ascii (py_lower u)" by (simp add: py_lower_def)
  then have "concat (map (py_repr_char q) u) = u" using q by (rule repr_chars_letters)
  then have "concat (map (py_repr_char q) t) =
      concat (map (py_repr_char q) p) @ u @ concat (map (py_repr_char q) s)"
    by (simp add: t r)
  then have "py_lower (concat (map (py_repr_char q) t)) =
      py_lower (concat (map (py_repr_char q) p)) @ kw @ py_lower (concat (map (py_repr_char q) s))"
    using u by (simp add: py_lower_append) (simp add: py_lower_def)
  then show ?thesis unfolding occurs_in_def by blast
qed

lemma occurs_in_lower_repr:
  assumes "occurs_in kw (py_lower t)" and "list_all lower_ascii kw"
  shows "occurs_in kw (py_lower (py_repr t))"
proof -
  define q where "q = (if CHR 0x27 \<in> set t \<and> CHR 0x22 \<notin> set t then CHR 0x22 else CHR 0x27)"
  have q: "(of_char q :: nat) < 65" by (simp add: q_def)
  have "py_repr t = [q] @ concat (map (py_repr_char q) t) @ [q]"
    by (simp add: py_repr_def q_def Let_def)
  then have "py_lower (py_repr t) =
      py_lower [q] @ py_lower (concat (map (py_repr_char q) t)) @ py_lower [q]"
    by (simp only: py_lower_append)
  moreover have "occurs_in kw (py_lower (concat (map (py_repr_char q) t)))"
    using assms q by (rule occurs_in_lower_escaped)
  ultimately show ?thesis by (simp only: occurs_in_extend)
qed

lemma occurs_in_join:
  "x \<in> set xs \<Longrightarrow> occurs_in kw (py_lower x) \<Longrightarrow> occurs_in kw (py_lower (py_join sep xs))"
proof (induction sep xs rule: py_join.induct)
  case (1 sep)
  then show ?case by simp
next
  case (2 sep y)
  then show ?case by simp
next
  case (3 sep y z zs)
  show ?case
  proof (cases "x = y")
    case True
    with 3 have "occurs_in kw (py_lower y)" by simp
    then have "occurs_in kw ([] @ py_lower y @ py_lower (sep @ py_join sep (z # zs)))"
      by (rule occurs_in_extend)
    then show ?thesis by (simp add: py_lower_append)
  next
    case False
    with 3 have "occurs_in kw (py_lower (py_join sep (z # zs)))" by simp
    then have "occurs_in kw (py_lower (y @ sep) @ py_lower (py_join sep (z # zs)) @ [])"
      by (rule occurs_in_extend)
    then show ?thesis by (simp add: py_lower_append)
  qed
qed

lemma occurs_in_str_tags:
  assumes "t \<in> set ts" and "occurs_in kw (py_lower t)" and "list_all lower_ascii kw"
  shows "occurs_in kw (py_lower (py_str_tags (Some ts)))"
proof -
  have "py_repr t \<in> set (map py_repr ts)" using assms(1) by simp
  moreover have "occurs_in kw (py_lower (py_repr t))"
    using assms(2,3) by (rule occurs_in_lower_repr)
  ultimately have "occurs_in kw (py_lower (py_join '', '' (map py_repr ts)))"
    by (rule occurs_in_join)
  then have "occurs_in kw (py_lower ''['' @ py_lower (py_join '', '' (map py_repr ts)) @ py_lower '']'')"
    by (rule occurs_in_extend)
  then show ?thesis by (simp only: py_str_tags_def option.case py_lower_append)
qed

lemma all_keywords_lower_ascii:
  "list_all (list_all lower_ascii) (concat (map snd theme_keywords))"
  by code_simp

lemma keywords_of_lower_ascii:
  assumes "kw \<in> set (keywords_of theme)"
  shows "list_all lower_ascii kw"
proof -
  from assms obtain kws where "map_of theme_keywords (py_lower theme) = Some kws" and "kw \<in> set kws"
    by (cases "map_of theme_keywords (py_lower theme)") (auto simp: keywords_of_def)
  then have "kws \<in> set (map snd theme_keywords)"
    by (metis map_of_SomeD image_eqI snd_conv set_map)
  then have "kw \<in> set (concat (map snd theme_keywords))" using \<open>kw \<in> set kws\<close> by auto
  with all_keywords_lower_ascii show ?thesis by (auto simp: list_all_iff)
qed

lemma filter_mentions:
  "\<forall>f \<in> set facts. target_name f \<noteq> None \<Longrightarrow>
   filter (fact_matches kws) facts = filter (mentions kws) facts"
  by (rule filter_cong) (simp_all add: fact_matches_mentions)

lemma sample_names:
  "target_name cruise_fact = Some ''Sunset Cruise''"
  "target_name museum_fact = Some ''Museum of Ethnology''"
  "target_name hotel_fact = Some ''Riverside Hotel''"
  by (simp_all add: cruise_fact_def museum_fact_def hotel_fact_def)

subsection \<open>Unmapped themes\<close>

text \<open>
  C6 (as amended). The filter lower-cases the theme before it looks the keywords up, so
  it is the identity for every theme whose lower-cased form is not one of the four theme
  names; a theme such as \<open>ROMANTIC\<close>, which is not itself in the enumeration, is still
  filtered.
\<close>

theorem filter_by_theme_unmapped_identity:
  "py_lower theme \<notin> set theme_names \<Longrightarrow> filter_by_theme facts theme = Inr facts"
  by (simp add: filter_by_theme_no_keywords keywords_of_unmapped)

theorem filter_by_theme_unmapped_identity_witness:
  "py_lower ''wellness'' \<notin> set theme_names \<and>
   filter_by_theme [cruise_fact, museum_fact] ''wellness'' = Inr [cruise_fact, museum_fact]"
  using filter_by_theme_unmapped_identity [of "''wellness''" "[cruise_fact, museum_fact]"]
  by (simp add: lower_wellness_unmapped)

text \<open>
  The claim as stated fails: \<open>ROMANTIC\<close> is not a member of the enumeration, and the
  filter drops the museum.
\<close>

theorem filter_by_theme_identity_counterexample:
  "''ROMANTIC'' \<notin> set theme_names \<and>
   filter_by_theme [cruise_fact, museum_fact] ''ROMANTIC'' \<noteq> Inr [cruise_fact, museum_fact]"
  by (simp add: ROMANTIC_not_a_name ROMANTIC_on_cruise_museum)

subsection \<open>Non-empty results\<close>

text \<open>
  C1 (as amended). For every non-empty list of facts and every theme, where each fact has
  a name if the theme has keywords, the filter returns a non-empty list: the matching
  facts when at least one fact matches a keyword of the theme; the first 10 facts when
  the theme has keywords and no fact matches; the facts unchanged when the lower-cased
  theme is not one of the four theme names.
\<close>

theorem filter_by_theme_nonempty:
  assumes "facts \<noteq> []"
    and "py_lower theme \<in> set theme_names \<longrightarrow> (\<forall>f \<in> set facts. target_name f \<noteq> None)"
  shows "(\<exists>out. filter_by_theme facts theme = Inr out \<and> out \<noteq> []) \<and>
         ((\<exists>f \<in> set facts. mentions (keywords_of theme) f) \<longrightarrow>
            filter_by_theme facts theme = Inr (filter (mentions (keywords_of theme)) facts)) \<and>
         (py_lower theme \<in> set theme_names \<and> \<not> (\<exists>f \<in> set facts. mentions (keywords_of theme) f) \<longrightarrow>
            filter_by_theme facts theme = Inr (take 10 facts)) \<and>
         (py_lower theme \<notin> set theme_names \<longrightarrow> filter_by_theme facts theme = Inr facts)"
proof (cases "py_lower theme \<in> set theme_names")
  case False
  then have kws: "keywords_of theme = []" by (rule keywords_of_unmapped)
  have id: "filter_by_theme facts theme = Inr facts"
    using kws by (rule filter_by_theme_no_keywords)
  have "\<not> (\<exists>f \<in> set facts. mentions (keywords_of theme) f)"
    by (simp add: kws mentions_def)
  with id False assms(1) show ?thesis by simp
next
  case True
  then have kws: "keywords_of theme \<noteq> []" by (rule keywords_of_mapped)
  from True assms(2) have named: "\<forall>f \<in> set facts. target_name f \<noteq> None" by simp
  let ?kept = "filter (mentions (keywords_of theme)) facts"
  have res: "filter_by_theme facts theme = Inr (if ?kept \<noteq> [] then ?kept else take 10 facts)"
    using filter_by_theme_mapped [OF kws named] by (simp add: filter_mentions [OF named])
  have some: "(\<exists>f \<in> set facts. mentions (keywords_of theme) f) \<longleftrightarrow> ?kept \<noteq> []"
    by (auto simp: filter_empty_conv)
  from assms(1) have "take 10 facts \<noteq> []" by (cases facts) simp_all
  with res some True show ?thesis by auto
qed

theorem filter_by_theme_nonempty_witness:
  "[museum_fact, cruise_fact] \<noteq> [] \<and>
   list_all (\<lambda>f. target_name f \<noteq> None) [museum_fact, cruise_fact] \<and>
   (\<exists>f \<in> set [museum_fact, cruise_fact]. mentions (keywords_of ''romantic'') f) \<and>
   filter_by_theme [museum_fact, cruise_fact] ''romantic'' = Inr [cruise_fact] \<and>
   filter (mentions (keywords_of ''romantic'')) [museum_fact, cruise_fact] = [cruise_fact] \<and>
   py_lower ''romantic'' \<in> set theme_names \<and>
   \<not> (\<exists>f \<in> set [museum_fact]. mentions (keywords_of ''romantic'') f) \<and>
   filter_by_theme [museum_fact] ''romantic'' = Inr (take 10 [museum_fact]) \<and>
   py_lower ''wellness'' \<notin> set theme_names \<and>
   filter_by_theme [museum_fact] ''wellness'' = Inr [museum_fact]"
proof -
  have m: "mentions (keywords_of ''romantic'') cruise_fact"
    using cruise_matches_romantic by (simp add: fact_matches_mentions sample_names)
  have n: "\<not> mentions (keywords_of ''romantic'') museum_fact"
    using museum_not_romantic by (simp add: fact_matches_mentions sample_names)
  show ?thesis
    using filter_by_theme_nonempty [of "[museum_fact, cruise_fact]" "''romantic''"]
      filter_by_theme_nonempty [of "[museum_fact]" "''romantic''"]
      filter_by_theme_nonempty [of "[museum_fact]" "''wellness''"]
      m n lower_romantic_mapped lower_wellness_unmapped
    by (simp add: sample_names)
qed

text \<open>
  The claim as stated fails for a theme without keywords: each of the 11 facts has a
  name, no fact matches a keyword of \<open>wellness\<close>, and the filter returns all 11 facts,
  not the first 10.
\<close>

theorem filter_by_theme_first_ten_counterexample:
  "replicate 11 museum_fact \<noteq> [] \<and>
   list_all (\<lambda>f. target_name f \<noteq> None) (replicate 11 museum_fact) \<and>
   \<not> list_ex (mentions (keywords_of ''wellness'')) (replicate 11 museum_fact) \<and>
   filter_by_theme (replicate 11 museum_fact) ''wellness'' \<noteq>
     Inr (take 10 (replicate 11 museum_fact))"
proof -
  have "filter_by_theme (replicate 11 museum_fact) ''wellness'' = Inr (replicate 11 museum_fact)"
    using keywords_of_wellness by (rule filter_by_theme_no_keywords)
  moreover have "length (take 10 (replicate 11 museum_fact)) \<noteq> length (replicate 11 museum_fact)"
    by simp
  ultimately show ?thesis
    by (auto simp: keywords_of_wellness mentions_def list_ex_iff list_all_iff sample_names)
qed

subsection \<open>The matching criterion\<close>

text \<open>
  C10 (as amended). For a theme with keywords and a list of facts, each with a name, of
  which at least one matches, the filter keeps a fact (returns it) if and only if it is
  one of the facts and some keyword of the theme occurs as a substring of the lower-cased
  rendering \<open>str(tags)\<close> of its whole tag list, of its lower-cased description or of its
  lower-cased name; the facts kept are in their order. In particular a keyword that
  occurs inside a longer tag (\<open>spa\<close> inside \<open>Spacious\<close>) keeps the fact.
\<close>

theorem filter_by_theme_keeps_matching:
  assumes mapped: "py_lower theme \<in> set theme_names"
    and named: "\<forall>f \<in> set facts. target_name f \<noteq> None"
    and some: "\<exists>f \<in> set facts. mentions (keywords_of theme) f"
  shows "\<exists>out. filter_by_theme facts theme = Inr out \<and>
           out = filter (mentions (keywords_of theme)) facts \<and>
           (\<forall>f. f \<in> set out \<longleftrightarrow>
              f \<in> set facts \<and>
              (\<exists>kw \<in> set (keywords_of theme).
                 occurs_in kw (py_lower (py_str_tags (target_tags f))) \<or>
                 occurs_in kw (py_lower (target_desc f)) \<or>
                 (\<exists>n. target_name f = Some n \<and> occurs_in kw (py_lower n)))) \<and>
           (\<forall>f kw ts t. f \<in> set facts \<and> kw \<in> set (keywords_of theme) \<and>
              target_tags f = Some ts \<and> t \<in> set ts \<and> occurs_in kw (py_lower t) \<longrightarrow>
              f \<in> set out)"
proof -
  let ?kws = "keywords_of theme"
  let ?out = "filter (mentions ?kws) facts"
  from mapped have kws: "?kws \<noteq> []" by (rule keywords_of_mapped)
  from some have nonempty: "?out \<noteq> []" by (auto simp: filter_empty_conv)
  have res: "filter_by_theme facts theme = Inr ?out"
    using filter_by_theme_mapped [OF kws named] nonempty
    by (simp add: filter_mentions [OF named])
  have tag: "mentions ?kws f"
    if "kw \<in> set ?kws" and "target_tags f = Some ts" and "t \<in> set ts"
      and "occurs_in kw (py_lower t)" for f kw ts t
  proof -
    from that(1) have "list_all lower_ascii kw" by (rule keywords_of_lower_ascii)
    with that(3,4) have "occurs_in kw (py_lower (py_str_tags (Some ts)))"
      by (rule occurs_in_str_tags)
    with that(1,2) show ?thesis unfolding mentions_def by auto
  qed
  have a: "\<forall>f. f \<in> set ?out \<longleftrightarrow>
              f \<in> set facts \<and>
              (\<exists>kw \<in> set ?kws.
                 occurs_in kw (py_lower (py_str_tags (target_tags f))) \<or>
                 occurs_in kw (py_lower (target_desc f)) \<or>
                 (\<exists>n. target_name f = Some n \<and> occurs_in kw (py_lower n)))"
    by (simp add: mentions_def)
  have b: "\<forall>f kw ts t. f \<in> set facts \<and> kw \<in> set ?kws \<and>
              target_tags f = Some ts \<and> t \<in> set ts \<and> occurs_in kw (py_lower t) \<longrightarrow>
              f \<in> set ?out"
    using tag by auto
  from res a b show ?thesis by blast
qed

lemma spa_keyword: "''spa'' \<in> set (keywords_of ''romantic'')"
  by code_simp

lemma spa_in_spacious: "occurs_in ''spa'' (py_lower ''Spacious'')"
proof -
  have "py_in ''spa'' (py_lower ''Spacious'')" by code_simp
  then show ?thesis by (simp add: py_in_occurs_in)
qed

lemma hotel_tags: "target_tags hotel_fact = Some [''Spacious'', ''quiet'']"
  by (simp add: hotel_fact_def)

lemma hotel_matches_romantic: "fact_matches (keywords_of ''romantic'') hotel_fact"
  by code_simp

theorem filter_by_theme_keeps_matching_witness:
  "py_lower ''romantic'' \<in> set theme_names \<and>
   list_all (\<lambda>f. target_name f \<noteq> None) [museum_fact, hotel_fact] \<and>
   mentions (keywords_of ''romantic'') hotel_fact \<and>
   \<not> mentions (keywords_of ''romantic'') museum_fact \<and>
   ''spa'' \<in> set (keywords_of ''romantic'') \<and>
   target_tags hotel_fact = Some [''Spacious'', ''quiet''] \<and>
   occurs_in ''spa'' (py_lower ''Spacious'') \<and>
   filter_by_theme [museum_fact, hotel_fact] ''romantic'' = Inr [hotel_fact]"
proof -
  have m: "mentions (keywords_of ''romantic'') hotel_fact"
    using hotel_matches_romantic by (simp add: fact_matches_mentions sample_names)
  have n: "\<not> mentions (keywords_of ''romantic'') museum_fact"
    using museum_not_romantic by (simp add: fact_matches_mentions sample_names)
  have named: "\<forall>f \<in> set [museum_fact, hotel_fact]. target_name f \<noteq> None"
    by (simp add: sample_names)
  have some: "\<exists>f \<in> set [museum_fact, hotel_fact]. mentions (keywords_of ''romantic'') f"
    using m by simp
  from filter_by_theme_keeps_matching [OF lower_romantic_mapped named some]
  obtain out where res: "filter_by_theme [museum_fact, hotel_fact] ''romantic'' = Inr out"
    and out: "out = filter (mentions (keywords_of ''romantic'')) [museum_fact, hotel_fact]"
    by blast
  from out m n have "out = [hotel_fact]" by simp
  with res m n show ?thesis
    using lower_romantic_mapped spa_keyword hotel_tags spa_in_spacious
    by (simp add: sample_names)
qed

text \<open>
  The claim as stated fails when no fact matches: the museum has a name, no keyword of
  \<open>romantic\<close> occurs in its tags, description or name, and the filter returns it all the
  same, as the first of the first 10 facts.
\<close>

lemma romantic_on_museum: "filter_by_theme [museum_fact] ''romantic'' = Inr [museum_fact]"
  by code_simp

theorem filter_by_theme_keeps_matching_counterexample:
  "py_lower ''romantic'' \<in> set theme_names \<and>
   target_name museum_fact \<noteq> None \<and>
   \<not> mentions (keywords_of ''romantic'') museum_fact \<and>
   filter_by_theme [museum_fact] ''romantic'' = Inr [museum_fact]"
proof -
  have n: "\<not> mentions (keywords_of ''romantic'') museum_fact"
    using museum_not_romantic by (simp add: fact_matches_mentions sample_names)
  with lower_romantic_mapped romantic_on_museum show ?thesis
    by (simp add: sample_names)
qed

section \<open>Properties of the embedding cache\<close>

lemma embed_text_hit:
  "cache st (md5_hexdigest env text) = Some v \<Longrightarrow> embed_text env st text = (v, st)"
  by (simp add: embed_text_def)

lemma embed_text_success:
  "cache st (md5_hexdigest env text) = None \<Longrightarrow>
   embeddings_create env (length (embed_requests st)) text = Inr v \<Longrightarrow>
   embed_text env st text =
     (v, st\<lparr>embed_requests := embed_requests st @ [text],
            cache := (cache st)(md5_hexdigest env text \<mapsto> v)\<rparr>)"
  by (simp add: embed_text_def)

lemma embed_text_failure:
  "cache st (md5_hexdigest env text) = None \<Longrightarrow>
   embeddings_create env (length (embed_requests st)) text = Inl e \<Longrightarrow>
   embed_text env st text =
     (replicate (vector_dim env) 0,
      st\<lparr>embed_requests := embed_requests st @ [text],
         stdout := stdout st @ [''Error generating embedding: '' @ e]\<rparr>)"
  by (simp add: embed_text_def)

lemma flaky_first:
  "embed_text flaky_env fresh_state ''hello'' =
     ([0, 0], fresh_state\<lparr>embed_requests := [''hello''],
                 stdout := [''Error generating embedding: timeout'']\<rparr>)"
  by (simp add: embed_text_def flaky_env_def sample_env_def fresh_state_def numeral_2_eq_2)

lemma flaky_second:
  "embed_text flaky_env (snd (embed_text flaky_env fresh_state ''hello'')) ''hello'' =
     ([1, 2], fresh_state\<lparr>embed_requests := [''hello'', ''hello''],
                 stdout := [''Error generating embedding: timeout''],
                 cache := [''md5:hello'' \<mapsto> [1, 2]]\<rparr>)"
  by (simp add: flaky_first) (simp add: embed_text_def flaky_env_def sample_env_def fresh_state_def)

lemma sample_first:
  "embed_text sample_env fresh_state ''hello'' =
     ([1, 2], fresh_state\<lparr>embed_requests := [''hello''],
                 cache := [''md5:hello'' \<mapsto> [1, 2]]\<rparr>)"
  by (simp add: embed_text_def sample_env_def fresh_state_def)

text \<open>After a failed call nothing is cached, and the next call asks the service again.\<close>

lemma embed_text_retry_after_failure:
  assumes miss: "cache st (md5_hexdigest env text) = None"
    and failed: "embeddings_create env (length (embed_requests st)) text = Inl e"
  shows "embed_requests (snd (embed_text env (snd (embed_text env st text)) text)) =
           embed_requests st @ [text, text]"
proof -
  let ?st1 = "st\<lparr>embed_requests := embed_requests st @ [text],
                  stdout := stdout st @ [''Error generating embedding: '' @ e]\<rparr>"
  have first: "snd (embed_text env st text) = ?st1"
    using miss failed by (simp add: embed_text_failure)
  have miss1: "cache ?st1 (md5_hexdigest env text) = None"
    using miss by simp
  show ?thesis
  proof (cases "embeddings_create env (length (embed_requests ?st1)) text")
    case (Inl e')
    with miss1 show ?thesis by (simp only: first embed_text_failure) simp
  next
    case (Inr v)
    with miss1 show ?thesis by (simp only: first embed_text_success) simp
  qed
qed

subsection \<open>Failure of the embedding service\<close>

text \<open>
  C7. When the text is not cached and the call to the embedding service fails, the cache
  is left as it was, the failure is printed, and the result is the vector of
  \<open>PINECONE_VECTOR_DIM\<close> zeros.
\<close>

theorem embed_text_failure_fallback:
  assumes "cache st (md5_hexdigest env text) = None"
    and "embeddings_create env (length (embed_requests st)) text = Inl e"
  shows "cache (snd (embed_text env st text)) = cache st \<and>
         stdout (snd (embed_text env st text)) =
           stdout st @ [''Error generating embedding: '' @ e] \<and>
         fst (embed_text env st text) = replicate (vector_dim env) 0 \<and>
         length (fst (embed_text env st text)) = vector_dim env \<and>
         list_all (\<lambda>x. x = 0) (fst (embed_text env st text))"
  using assms by (simp add: embed_text_failure list_all_iff)

theorem embed_text_failure_fallback_witness:
  "cache fresh_state (md5_hexdigest flaky_env ''hello'') = None \<and>
   embeddings_create flaky_env (length (embed_requests fresh_state)) ''hello'' = Inl ''timeout'' \<and>
   cache (snd (embed_text flaky_env fresh_state ''hello'')) = Map.empty \<and>
   stdout (snd (embed_text flaky_env fresh_state ''hello'')) =
     [''Error generating embedding: timeout''] \<and>
   fst (embed_text flaky_env fresh_state ''hello'') = [0, 0]"
proof -
  have a: "cache fresh_state (md5_hexdigest flaky_env ''hello'') = None"
    by (simp add: fresh_state_def)
  have b: "embeddings_create flaky_env (length (embed_requests fresh_state)) ''hello'' =
      Inl ''timeout''"
    by (simp add: flaky_env_def sample_env_def fresh_state_def)
  have c: "vector_dim flaky_env = 2" by (simp add: flaky_env_def sample_env_def)
  show ?thesis
    using embed_text_failure_fallback [OF a b] a b
    by (simp add: c numeral_2_eq_2) (simp add: fresh_state_def)
qed

subsection \<open>Embedding the same text twice\<close>

text \<open>
  C3 (as amended). When the text is already cached, or the first call to the embedding
  service succeeds, embedding the text twice gives the same vector both times and the
  second call makes no external request (it leaves the state as it was): after the first
  call the vector is in the cache under the fingerprint of the text.
\<close>

theorem embed_text_twice:
  assumes "cache st (md5_hexdigest env text) \<noteq> None \<or>
           (\<exists>v. embeddings_create env (length (embed_requests st)) text = Inr v)"
  shows "fst (embed_text env (snd (embed_text env st text)) text) = fst (embed_text env st text) \<and>
         embed_requests (snd (embed_text env (snd (embed_text env st text)) text)) =
           embed_requests (snd (embed_text env st text)) \<and>
         snd (embed_text env (snd (embed_text env st text)) text) = snd (embed_text env st text) \<and>
         cache (snd (embed_text env st text)) (md5_hexdigest env text) =
           Some (fst (embed_text env st text))"
proof (cases "cache st (md5_hexdigest env text)")
  case (Some v)
  then show ?thesis by (simp add: embed_text_hit)
next
  case None
  with assms obtain v where "embeddings_create env (length (embed_requests st)) text = Inr v"
    by auto
  with None show ?thesis by (simp add: embed_text_success embed_text_hit)
qed

theorem embed_text_twice_witness:
  "(\<exists>v. embeddings_create sample_env (length (embed_requests fresh_state)) ''hello'' = Inr v) \<and>
   fst (embed_text sample_env fresh_state ''hello'') = [1, 2] \<and>
   fst (embed_text sample_env (snd (embed_text sample_env fresh_state ''hello'')) ''hello'') = [1, 2] \<and>
   embed_requests (snd (embed_text sample_env (snd (embed_text sample_env fresh_state ''hello''))
     ''hello'')) = [''hello''] \<and>
   cache (fresh_state\<lparr>cache := [''md5:hello'' \<mapsto> [3, 4]]\<rparr>) (md5_hexdigest flaky_env ''hello'') \<noteq> None \<and>
   embed_text flaky_env (fresh_state\<lparr>cache := [''md5:hello'' \<mapsto> [3, 4]]\<rparr>) ''hello'' =
     ([3, 4], fresh_state\<lparr>cache := [''md5:hello'' \<mapsto> [3, 4]]\<rparr>) \<and>
   snd (embed_text flaky_env
         (snd (embed_text flaky_env (fresh_state\<lparr>cache := [''md5:hello'' \<mapsto> [3, 4]]\<rparr>) ''hello''))
         ''hello'') = fresh_state\<lparr>cache := [''md5:hello'' \<mapsto> [3, 4]]\<rparr>"
proof -
  let ?cached = "fresh_state\<lparr>cache := [''md5:hello'' \<mapsto> [3, 4]]\<rparr>"
  have a: "\<exists>v. embeddings_create sample_env (length (embed_requests fresh_state)) ''hello'' = Inr v"
    by (simp add: sample_env_def)
  have b: "embed_requests (snd (embed_text sample_env fresh_state ''hello'')) = [''hello'']"
    by (simp add: sample_first)
  have c: "cache ?cached (md5_hexdigest flaky_env ''hello'') \<noteq> None"
    by (simp add: flaky_env_def sample_env_def)
  have d: "embed_text flaky_env ?cached ''hello'' = ([3, 4], ?cached)"
    by (simp add: embed_text_def flaky_env_def sample_env_def)
  show ?thesis
    using embed_text_twice [of fresh_state sample_env "''hello''"]
      embed_text_twice [of ?cached flaky_env "''hello''"] a b c d
    by (simp add: sample_first)
qed

text \<open>
  The claim as stated fails when the first call to the service fails: nothing is cached,
  so the second call asks the service again, and here gets a vector that differs from the
  zero vector of the first call.
\<close>

theorem embed_text_twice_counterexample:
  "fst (embed_text flaky_env (snd (embed_text flaky_env fresh_state ''hello'')) ''hello'') \<noteq>
     fst (embed_text flaky_env fresh_state ''hello'') \<and>
   embed_requests (snd (embed_text flaky_env (snd (embed_text flaky_env fresh_state ''hello''))
     ''hello'')) \<noteq> embed_requests (snd (embed_text flaky_env fresh_state ''hello''))"
  by (simp add: flaky_second) (simp add: flaky_first)

section \<open>Properties of the vector retrieval\<close>

lemma pinecone_query_result:
  "fst (pinecone_query env st q k) =
     (case index_query env (fst (embed_text env st q)) k of Inl e \<Rightarrow> [] | Inr ms \<Rightarrow> ms)"
  by (simp add: pinecone_query_def split: prod.splits sum.splits)






section \<open>Properties of the graph expansion\<close>

lemma fetch_loop_eq:
  "fetch_loop env ids (facts, st) =
     (facts @ concat (map (facts_for env) ids),
      st\<lparr>graph_queries := graph_queries st @ map Q1 ids,
         stdout := stdout st @ concat (map (error_lines_for env) ids)\<rparr>)"
proof (induction ids arbitrary: facts st)
  case Nil
  then show ?case by simp
next
  case (Cons nid ids)
  obtain recs failure where n: "neighbours env nid = (recs, failure)"
    by (cases "neighbours env nid")
  show ?case
  proof (cases failure)
    case None
    with n show ?thesis
      by (simp add: Cons.IH run_q1_def facts_for_def error_lines_for_def)
  next
    case (Some e)
    with n show ?thesis
      by (simp add: Cons.IH run_q1_def facts_for_def error_lines_for_def)
  qed
qed

lemma fetch_no_city:
  assumes "city_ids_of (concat (map (facts_for env) ids)) = []"
  shows "fetch_graph_context env st ids =
     (concat (map (facts_for env) ids), [],
      (after_loop env st ids)\<lparr>stdout := stdout (after_loop env st ids) @
         [summary_line (concat (map (facts_for env) ids)) []]\<rparr>)"
  using assms
  by (simp add: fetch_graph_context_def fetch_loop_eq Let_def after_loop_def summary_line_def)

lemma fetch_city_failed:
  assumes "city_ids_of (concat (map (facts_for env) ids)) \<noteq> []"
    and "city_links env (city_ids_of (concat (map (facts_for env) ids))) = Inl e"
  shows "fetch_graph_context env st ids =
     (concat (map (facts_for env) ids), [],
      (after_loop env st ids)\<lparr>
         graph_queries := graph_queries (after_loop env st ids) @
           [Q2 (city_ids_of (concat (map (facts_for env) ids)))],
         stdout := stdout (after_loop env st ids) @
           [''Error fetching city connections: '' @ e,
            summary_line (concat (map (facts_for env) ids)) []]\<rparr>)"
  using assms
  by (simp add: fetch_graph_context_def fetch_loop_eq Let_def after_loop_def summary_line_def
      run_q2_def)

lemma fetch_city_ok:
  assumes "city_ids_of (concat (map (facts_for env) ids)) \<noteq> []"
    and "city_links env (city_ids_of (concat (map (facts_for env) ids))) = Inr recs"
  shows "fetch_graph_context env st ids =
     (concat (map (facts_for env) ids), take 5 recs,
      (after_loop env st ids)\<lparr>
         graph_queries := graph_queries (after_loop env st ids) @
           [Q2 (city_ids_of (concat (map (facts_for env) ids)))],
         stdout := stdout (after_loop env st ids) @
           [summary_line (concat (map (facts_for env) ids)) (take 5 recs)]\<rparr>)"
  using assms
  by (simp add: fetch_graph_context_def fetch_loop_eq Let_def after_loop_def summary_line_def
      run_q2_def)

lemma facts_for_source: "f \<in> set (facts_for env nid) \<Longrightarrow> source f = nid"
  by (auto simp: facts_for_def make_fact_def)

lemma facts_for_read: "f \<in> set (facts_for env nid) \<Longrightarrow> fst (neighbours env nid) \<noteq> []"
  by (auto simp: facts_for_def)

lemma error_line_printed:
  assumes "nid \<in> set ids" and "snd (neighbours env nid) = Some e"
  shows "(''Error fetching graph context for '' @ nid @ '': '' @ e) \<in>
           set (concat (map (error_lines_for env) ids))"
proof -
  have "(''Error fetching graph context for '' @ nid @ '': '' @ e) \<in> set (error_lines_for env nid)"
    using assms(2) by (simp add: error_lines_for_def)
  with assms(1) show ?thesis by auto
qed

lemma fetch_cases:
  obtains (no_city) "city_ids_of (concat (map (facts_for env) ids)) = []"
  | (failed) e where "city_ids_of (concat (map (facts_for env) ids)) \<noteq> []"
      "city_links env (city_ids_of (concat (map (facts_for env) ids))) = Inl e"
  | (ok) recs where "city_ids_of (concat (map (facts_for env) ids)) \<noteq> []"
      "city_links env (city_ids_of (concat (map (facts_for env) ids))) = Inr recs"
  by (cases "city_links env (city_ids_of (concat (map (facts_for env) ids)))") blast+

lemma fetch_facts: "fst (fetch_graph_context env st ids) = concat (map (facts_for env) ids)"
  by (cases rule: fetch_cases [of env ids])
     (simp_all add: fetch_no_city fetch_city_failed fetch_city_ok)

lemma fetch_connections:
  "fst (snd (fetch_graph_context env st ids)) =
     connections_for env (city_ids_of (concat (map (facts_for env) ids)))"
  by (cases rule: fetch_cases [of env ids])
     (simp_all add: fetch_no_city fetch_city_failed fetch_city_ok connections_for_def)

lemma fetch_queries:
  "graph_queries (snd (snd (fetch_graph_context env st ids))) =
     graph_queries st @ map Q1 ids @
     (if city_ids_of (concat (map (facts_for env) ids)) = [] then []
      else [Q2 (city_ids_of (concat (map (facts_for env) ids)))])"
  by (cases rule: fetch_cases [of env ids])
     (simp_all add: fetch_no_city fetch_city_failed fetch_city_ok after_loop_def)

lemma fetch_stdout_errors:
  "set (concat (map (error_lines_for env) ids)) \<subseteq>
     set (stdout (snd (snd (fetch_graph_context env st ids))))"
  by (cases rule: fetch_cases [of env ids])
     (auto simp: fetch_no_city fetch_city_failed fetch_city_ok after_loop_def)

subsection \<open>Failing queries\<close>

text \<open>
  C2 (as amended). For every list of entity ids the expansion returns (the function is
  total: every failure of a query is a value here). The facts are those of the records
  read, id by id in the order of the ids: all of the at most 10 records of an id whose
  query succeeds, the records read before the failure of an id whose query fails, none
  when it fails before a record is read. The failure of an id is printed and the
  expansion goes on with the next id; and when the city-connectivity query fails the
  connection list is empty.
\<close>

theorem fetch_graph_context_partial_failure:
  "fst (fetch_graph_context env st ids) = concat (map (facts_for env) ids) \<and>
   (\<forall>nid recs failure. neighbours env nid = (recs, failure) \<longrightarrow>
      facts_for env nid = map (make_fact nid) (take 10 recs)) \<and>
   (\<forall>nid e. neighbours env nid = ([], Some e) \<longrightarrow> facts_for env nid = []) \<and>
   (\<forall>nid recs e. nid \<in> set ids \<and> neighbours env nid = (recs, Some e) \<longrightarrow>
      (''Error fetching graph context for '' @ nid @ '': '' @ e) \<in>
        set (stdout (snd (snd (fetch_graph_context env st ids))))) \<and>
   (\<forall>f \<in> set (fst (fetch_graph_context env st ids)).
      source f \<in> set ids \<and> fst (neighbours env (source f)) \<noteq> []) \<and>
   (\<forall>e. city_links env (city_ids_of (fst (fetch_graph_context env st ids))) = Inl e \<longrightarrow>
      fst (snd (fetch_graph_context env st ids)) = [])"
proof (intro conjI allI impI ballI)
  show "fst (fetch_graph_context env st ids) = concat (map (facts_for env) ids)"
    by (rule fetch_facts)
next
  fix nid recs failure assume "neighbours env nid = (recs, failure)"
  then show "facts_for env nid = map (make_fact nid) (take 10 recs)"
    by (simp add: facts_for_def)
next
  fix nid e assume "neighbours env nid = ([], Some e)"
  then show "facts_for env nid = []" by (simp add: facts_for_def)
next
  fix nid recs e assume "nid \<in> set ids \<and> neighbours env nid = (recs, Some e)"
  then have "nid \<in> set ids" and "snd (neighbours env nid) = Some e" by simp_all
  then have "(''Error fetching graph context for '' @ nid @ '': '' @ e) \<in>
      set (concat (map (error_lines_for env) ids))"
    by (rule error_line_printed)
  with fetch_stdout_errors [of env ids st]
  show "(''Error fetching graph context for '' @ nid @ '': '' @ e) \<in>
      set (stdout (snd (snd (fetch_graph_context env st ids))))"
    by blast
next
  fix f assume "f \<in> set (fst (fetch_graph_context env st ids))"
  then obtain nid where nid: "nid \<in> set ids" and f: "f \<in> set (facts_for env nid)"
    by (auto simp: fetch_facts)
  from f have "source f = nid" by (rule facts_for_source)
  with nid show "source f \<in> set ids" by simp
next
  fix f assume "f \<in> set (fst (fetch_graph_context env st ids))"
  then obtain nid where nid: "nid \<in> set ids" and f: "f \<in> set (facts_for env nid)"
    by (auto simp: fetch_facts)
  from f have "source f = nid" by (rule facts_for_source)
  with f show "fst (neighbours env (source f)) \<noteq> []"
    by (simp add: facts_for_read)
next
  fix e assume "city_links env (city_ids_of (fst (fetch_graph_context env st ids))) = Inl e"
  then show "fst (snd (fetch_graph_context env st ids)) = []"
    by (simp add: fetch_connections fetch_facts connections_for_def)
qed

lemma facts_for_attraction:
  "facts_for sample_env ''attraction_1'' =
     [make_fact ''attraction_1'' hanoi_row, make_fact ''attraction_1'' cafe_row]"
  by (simp add: facts_for_def sample_env_def sample_neighbours_def)

lemma facts_for_hotel: "facts_for sample_env ''hotel_9'' = []"
  by (simp add: facts_for_def sample_env_def sample_neighbours_def)

lemma sample_city_ids:
  "city_ids_of [make_fact ''attraction_1'' hanoi_row, make_fact ''attraction_1'' cafe_row] =
     [''attraction_1'']"
  by (simp add: city_ids_of_def make_fact_def hanoi_row_def cafe_row_def)

lemma graph_down_neighbours: "neighbours graph_down_env = sample_neighbours"
  by (simp add: graph_down_env_def sample_env_def)

lemma facts_for_graph_down: "facts_for graph_down_env = facts_for sample_env"
  by (rule ext) (simp add: facts_for_def graph_down_env_def sample_env_def)

lemma lossy_neighbours: "neighbours lossy_env nid = ([cafe_row], Some ''ConnectionLost'')"
  by (simp add: lossy_env_def)

lemma facts_for_lossy: "facts_for lossy_env nid = [make_fact nid cafe_row]"
  by (simp add: facts_for_def lossy_neighbours)

theorem fetch_graph_context_partial_failure_witness:
  "neighbours graph_down_env ''attraction_1'' = ([hanoi_row, cafe_row], None) \<and>
   neighbours graph_down_env ''hotel_9'' = ([], Some ''ServiceUnavailable'') \<and>
   fst (fetch_graph_context graph_down_env fresh_state [''attraction_1'', ''hotel_9'']) =
     [make_fact ''attraction_1'' hanoi_row, make_fact ''attraction_1'' cafe_row] \<and>
   ''Error fetching graph context for hotel_9: ServiceUnavailable'' \<in>
     set (stdout (snd (snd (fetch_graph_context graph_down_env fresh_state
       [''attraction_1'', ''hotel_9''])))) \<and>
   city_links graph_down_env
     (city_ids_of (fst (fetch_graph_context graph_down_env fresh_state
       [''attraction_1'', ''hotel_9'']))) = Inl ''SessionExpired'' \<and>
   fst (snd (fetch_graph_context graph_down_env fresh_state
     [''attraction_1'', ''hotel_9''])) = [] \<and>
   neighbours lossy_env ''hotel_9'' = ([cafe_row], Some ''ConnectionLost'') \<and>
   fst (fetch_graph_context lossy_env fresh_state [''hotel_9'', ''city_hue'']) =
     [make_fact ''hotel_9'' cafe_row, make_fact ''city_hue'' cafe_row] \<and>
   ''Error fetching graph context for hotel_9: ConnectionLost'' \<in>
     set (stdout (snd (snd (fetch_graph_context lossy_env fresh_state
       [''hotel_9'', ''city_hue'']))))"
proof -
  note inst = fetch_graph_context_partial_failure
      [of graph_down_env fresh_state "[''attraction_1'', ''hotel_9'']"]
  note lossy = fetch_graph_context_partial_failure
      [of lossy_env fresh_state "[''hotel_9'', ''city_hue'']"]
  have a: "neighbours graph_down_env ''attraction_1'' = ([hanoi_row, cafe_row], None)"
    by (simp add: graph_down_neighbours sample_neighbours_def)
  have n: "neighbours graph_down_env ''hotel_9'' = ([], Some ''ServiceUnavailable'')"
    by (simp add: graph_down_neighbours sample_neighbours_def)
  have c: "\<And>ids. city_links graph_down_env ids = Inl ''SessionExpired''"
    by (simp add: graph_down_env_def)
  from inst have f: "fst (fetch_graph_context graph_down_env fresh_state
      [''attraction_1'', ''hotel_9'']) =
      [make_fact ''attraction_1'' hanoi_row, make_fact ''attraction_1'' cafe_row]"
    by (simp add: facts_for_graph_down facts_for_attraction facts_for_hotel)
  from inst n have p: "''Error fetching graph context for hotel_9: ServiceUnavailable'' \<in>
     set (stdout (snd (snd (fetch_graph_context graph_down_env fresh_state
       [''attraction_1'', ''hotel_9'']))))"
    by fastforce
  from inst c have e: "fst (snd (fetch_graph_context graph_down_env fresh_state
     [''attraction_1'', ''hotel_9''])) = []"
    by blast
  have ln: "neighbours lossy_env ''hotel_9'' = ([cafe_row], Some ''ConnectionLost'')"
    by (rule lossy_neighbours)
  from lossy have lf: "fst (fetch_graph_context lossy_env fresh_state [''hotel_9'', ''city_hue'']) =
     [make_fact ''hotel_9'' cafe_row, make_fact ''city_hue'' cafe_row]"
    by (simp add: facts_for_lossy)
  from lossy ln have lp: "''Error fetching graph context for hotel_9: ConnectionLost'' \<in>
     set (stdout (snd (snd (fetch_graph_context lossy_env fresh_state
       [''hotel_9'', ''city_hue'']))))"
    by fastforce
  from a n f p c e ln lf lp show ?thesis by (simp only: simp_thms)
qed

text \<open>
  The claim as stated fails when the query of an id fails after a record is read: the
  fact of that record is returned, for an id that did not succeed.
\<close>

theorem fetch_graph_context_partial_failure_counterexample:
  "snd (neighbours lossy_env ''hotel_9'') = Some ''ConnectionLost'' \<and>
   fst (fetch_graph_context lossy_env fresh_state [''hotel_9'']) =
     [make_fact ''hotel_9'' cafe_row] \<and>
   source (make_fact ''hotel_9'' cafe_row) = ''hotel_9''"
  by (simp add: fetch_facts facts_for_lossy lossy_neighbours make_fact_def)

subsection \<open>The city-connectivity query\<close>

text \<open>
  C8. After the loop over the ids, the city ids are the sources of the facts whose target
  has the label \<open>City\<close>. When there is one, exactly one more query is run, the
  connectivity query on those ids, and at most 5 connections are returned; when there is
  none, no connectivity query is run and the connection list is empty.
\<close>

theorem fetch_graph_context_city_query:
  "city_ids_of (fst (fetch_graph_context env st ids)) =
     map source (filter (\<lambda>f. ''City'' \<in> set (labels f)) (fst (fetch_graph_context env st ids))) \<and>
   graph_queries (snd (snd (fetch_graph_context env st ids))) =
     graph_queries st @ map Q1 ids @
     (if city_ids_of (fst (fetch_graph_context env st ids)) = [] then []
      else [Q2 (city_ids_of (fst (fetch_graph_context env st ids)))]) \<and>
   length (filter is_city_query
       (drop (length (graph_queries st)) (graph_queries (snd (snd (fetch_graph_context env st ids)))))) =
     (if city_ids_of (fst (fetch_graph_context env st ids)) = [] then 0 else 1) \<and>
   fst (snd (fetch_graph_context env st ids)) =
     connections_for env (city_ids_of (fst (fetch_graph_context env st ids))) \<and>
   length (fst (snd (fetch_graph_context env st ids))) \<le> 5 \<and>
   (city_ids_of (fst (fetch_graph_context env st ids)) = [] \<longrightarrow>
      fst (snd (fetch_graph_context env st ids)) = [])"
proof -
  let ?facts = "fst (fetch_graph_context env st ids)"
  have q: "graph_queries (snd (snd (fetch_graph_context env st ids))) =
     graph_queries st @ map Q1 ids @
     (if city_ids_of ?facts = [] then [] else [Q2 (city_ids_of ?facts)])"
    by (simp only: fetch_queries fetch_facts)
  have no_q1: "filter is_city_query (map Q1 ids) = []"
    by (induction ids) (simp_all add: is_city_query_def)
  have n: "length (filter is_city_query
       (drop (length (graph_queries st)) (graph_queries (snd (snd (fetch_graph_context env st ids)))))) =
     (if city_ids_of ?facts = [] then 0 else 1)"
    by (simp add: q no_q1) (simp add: is_city_query_def)
  have c: "fst (snd (fetch_graph_context env st ids)) = connections_for env (city_ids_of ?facts)"
    by (simp only: fetch_connections fetch_facts)
  have l: "length (connections_for env (city_ids_of ?facts)) \<le> 5"
    by (simp add: connections_for_def split: sum.splits)
  have e: "city_ids_of ?facts = [] \<longrightarrow> connections_for env (city_ids_of ?facts) = []"
    by (simp add: connections_for_def)
  have d: "city_ids_of ?facts = map source (filter (\<lambda>f. ''City'' \<in> set (labels f)) ?facts)"
    by (simp add: city_ids_of_def)
  from d q n c l e show ?thesis by (simp only: simp_thms)
qed

theorem fetch_graph_context_city_query_witness:
  "city_ids_of (fst (fetch_graph_context sample_env fresh_state [''attraction_1'', ''hotel_9''])) =
     [''attraction_1''] \<and>
   graph_queries (snd (snd (fetch_graph_context sample_env fresh_state [''attraction_1'', ''hotel_9'']))) =
     [Q1 ''attraction_1'', Q1 ''hotel_9'', Q2 [''attraction_1'']] \<and>
   fst (snd (fetch_graph_context sample_env fresh_state [''attraction_1'', ''hotel_9''])) =
     take 5 sample_links \<and>
   length (fst (snd (fetch_graph_context sample_env fresh_state [''attraction_1'', ''hotel_9'']))) = 5 \<and>
   city_ids_of (fst (fetch_graph_context sample_env fresh_state [''hotel_9''])) = [] \<and>
   graph_queries (snd (snd (fetch_graph_context sample_env fresh_state [''hotel_9'']))) =
     [Q1 ''hotel_9''] \<and>
   fst (snd (fetch_graph_context sample_env fresh_state [''hotel_9''])) = []"
proof -
  have f1: "fst (fetch_graph_context sample_env fresh_state [''attraction_1'', ''hotel_9'']) =
      [make_fact ''attraction_1'' hanoi_row, make_fact ''attraction_1'' cafe_row]"
    by (simp add: fetch_facts facts_for_attraction facts_for_hotel)
  have f2: "fst (fetch_graph_context sample_env fresh_state [''hotel_9'']) = []"
    by (simp add: fetch_facts facts_for_hotel)
  have l: "connections_for sample_env [''attraction_1''] = take 5 sample_links"
    by (simp add: connections_for_def sample_env_def)
  have n: "length sample_links = 6" by (simp add: sample_links_def)
  have e: "connections_for sample_env [] = []" by (simp add: connections_for_def)
  have g: "graph_queries fresh_state = []" by (simp add: fresh_state_def)
  have z: "city_ids_of [] = []" by (simp add: city_ids_of_def)
  show ?thesis
    using fetch_graph_context_city_query [of sample_env fresh_state "[''attraction_1'', ''hotel_9'']"]
      fetch_graph_context_city_query [of sample_env fresh_state "[''hotel_9'']"]
    by (simp add: f1 f2 sample_city_ids l n g z e)
qed

section \<open>Properties of the prompt assembly\<close>

lemma vec_context_length: "length (vec_context env ms) = min 8 (length ms)"
  by (simp add: vec_context_def min.commute)

lemma semantic_lines_eq: "semantic_lines env ms = map (render_match env) (take 8 ms)"
  by (simp add: semantic_lines_def vec_context_def)

lemma newlines_in_join_sep:
  "sep = [CHR 0x0A] \<Longrightarrow> \<forall>l \<in> set xs. CHR 0x0A \<notin> set l \<Longrightarrow>
   length (filter (\<lambda>c. c = CHR 0x0A) (py_join sep xs)) = length xs - 1"
proof (induction sep xs rule: py_join.induct)
  case (1 sep)
  then show ?case by simp
next
  case (2 sep x)
  then have "filter (\<lambda>c. c = CHR 0x0A) x = []" by (auto simp: filter_empty_conv)
  then show ?case by simp
next
  case (3 sep x y ys)
  then have "filter (\<lambda>c. c = CHR 0x0A) x = []" by (auto simp: filter_empty_conv)
  with 3 show ?case by simp
qed

lemma newlines_in_join:
  "\<forall>l \<in> set xs. CHR 0x0A \<notin> set l \<Longrightarrow>
   length (filter (\<lambda>c. c = CHR 0x0A) (py_join nl xs)) = length xs - 1"
  by (rule newlines_in_join_sep) (simp_all add: nl_def)

lemma detect_theme_keywords: "detect_theme q \<noteq> [] \<Longrightarrow> keywords_of (detect_theme q) \<noteq> []"
proof -
  have "keywords_of ''romantic'' \<noteq> []" "keywords_of ''adventure'' \<noteq> []"
    "keywords_of ''cultural'' \<noteq> []" "keywords_of ''family'' \<noteq> []"
    by code_simp+
  then show "detect_theme q \<noteq> [] \<Longrightarrow> keywords_of (detect_theme q) \<noteq> []"
    by (simp add: detect_theme_def split: if_splits)
qed

lemma filter_by_theme_named_returns:
  "\<forall>f \<in> set facts. target_name f \<noteq> None \<Longrightarrow> \<exists>out. filter_by_theme facts theme = Inr out"
  by (cases "keywords_of theme = []")
     (simp_all add: filter_by_theme_no_keywords filter_by_theme_mapped)

lemma build_prompt_of_facts:
  "(if detect_theme q \<noteq> [] \<and> facts \<noteq> [] then filter_by_theme facts (detect_theme q)
    else Inr facts) = Inr facts' \<Longrightarrow>
   \<exists>before after.
     build_prompt env q ms facts conns =
       Inr [\<lparr>role = ''system'', content = system_prompt\<rparr>,
            \<lparr>role = ''user'',
             content = before @ semantic_header @ py_join nl (semantic_lines env ms) @ nl @ nl @
                       graph_header @ after\<rparr>]"
proof -
  assume r: "(if detect_theme q \<noteq> [] \<and> facts \<noteq> [] then filter_by_theme facts (detect_theme q)
    else Inr facts) = Inr facts'"
  have "build_prompt env q ms facts conns =
       Inr [\<lparr>role = ''system'', content = system_prompt\<rparr>,
            \<lparr>role = ''user'',
             content = (''User Query: '' @ q @ nl @ nl) @ semantic_header @
                   py_join nl (semantic_lines env ms) @ nl @ nl @ graph_header @
                   (py_join nl (take 20 (graph_context facts')) @ city_context conns @ nl @ nl @
                    ''Based on the above context, create a detailed response. '' @
                    ''Use node IDs in [brackets] when referencing specific places.'')\<rparr>]"
    unfolding build_prompt_def Let_def r by simp
  then show ?thesis by blast
qed

lemma build_prompt_raises_or_user_message:
  "(\<exists>e. build_prompt env q ms facts conns = Inl e) \<or>
   (\<exists>before after.
      build_prompt env q ms facts conns =
        Inr [\<lparr>role = ''system'', content = system_prompt\<rparr>,
             \<lparr>role = ''user'',
              content = before @ semantic_header @ py_join nl (semantic_lines env ms) @ nl @ nl @
                        graph_header @ after\<rparr>])"
proof (cases "if detect_theme q \<noteq> [] \<and> facts \<noteq> [] then filter_by_theme facts (detect_theme q)
    else Inr facts")
  case (Inl e)
  then have "build_prompt env q ms facts conns = Inl e"
    unfolding build_prompt_def Let_def by simp
  then show ?thesis by blast
next
  case (Inr facts')
  then show ?thesis by (simp only: build_prompt_of_facts simp_thms)
qed

lemma build_prompt_user_message:
  assumes "detect_theme q = [] \<or> (\<forall>f \<in> set facts. target_name f \<noteq> None)"
  shows "\<exists>before after.
     build_prompt env q ms facts conns =
       Inr [\<lparr>role = ''system'', content = system_prompt\<rparr>,
            \<lparr>role = ''user'',
             content = before @ semantic_header @ py_join nl (semantic_lines env ms) @ nl @ nl @
                       graph_header @ after\<rparr>]"
proof -
  have "\<exists>facts'. (if detect_theme q \<noteq> [] \<and> facts \<noteq> [] then filter_by_theme facts (detect_theme q)
    else Inr facts) = Inr facts'"
  proof (cases "detect_theme q = []")
    case True
    then show ?thesis by simp
  next
    case False
    with assms have "\<forall>f \<in> set facts. target_name f \<noteq> None" by simp
    then show ?thesis using filter_by_theme_named_returns [of facts "detect_theme q"] by auto
  qed
  then obtain facts' where "(if detect_theme q \<noteq> [] \<and> facts \<noteq> [] then
      filter_by_theme facts (detect_theme q) else Inr facts) = Inr facts'" by blast
  then show ?thesis by (rule build_prompt_of_facts)
qed

text \<open>
  The assembly raises exactly when the query names a theme and a fact has no name.
\<close>

lemma build_prompt_nameless:
  assumes "detect_theme q \<noteq> []" and "\<exists>f \<in> set facts. target_name f = None"
  shows "build_prompt env q ms facts conns = Inl (AttributeError none_has_no_lower)"
proof -
  from assms(2) have "facts \<noteq> []" by auto
  moreover from assms have "filter_by_theme facts (detect_theme q) =
      Inl (AttributeError none_has_no_lower)"
    by (simp add: filter_by_theme_nameless detect_theme_keywords)
  ultimately show ?thesis
    using assms(1) unfolding build_prompt_def Let_def by simp
qed

text \<open>
  C4. The semantic-match section of the user message is the newline-join of the rendered
  lines: the first 8 matches are rendered, one line each, and the cap of 10 lines applied
  to them changes nothing. So for 12 matches the section has 8 rendered lines, which is at
  most 10, and when no rendered line holds a newline itself the section has one newline
  less than it has lines. The message is assembled, with that section between the two
  headers, unless the theme filter raises; it does not raise when the query names no
  theme or every fact has a name.
\<close>

theorem semantic_section_lines:
  "semantic_lines env ms = map (render_match env) (take 8 ms) \<and>
   length (semantic_lines env ms) = min 8 (length ms) \<and>
   length (semantic_lines env ms) \<le> 10 \<and>
   (length ms = 12 \<longrightarrow> length (semantic_lines env ms) = 8) \<and>
   (length (vec_context env ms) \<le> 8 \<and> take 10 (vec_context env ms) = vec_context env ms) \<and>
   ((\<exists>e. build_prompt env q ms facts conns = Inl e) \<or>
    (\<exists>before after.
       build_prompt env q ms facts conns =
         Inr [\<lparr>role = ''system'', content = system_prompt\<rparr>,
              \<lparr>role = ''user'',
               content = before @ semantic_header @ py_join nl (semantic_lines env ms) @ nl @ nl @
                         graph_header @ after\<rparr>])) \<and>
   (detect_theme q = [] \<or> (\<forall>f \<in> set facts. target_name f \<noteq> None) \<longrightarrow>
      (\<exists>before after.
         build_prompt env q ms facts conns =
           Inr [\<lparr>role = ''system'', content = system_prompt\<rparr>,
                \<lparr>role = ''user'',
                 content = before @ semantic_header @ py_join nl (semantic_lines env ms) @ nl @ nl @
                           graph_header @ after\<rparr>])) \<and>
   ((\<forall>l \<in> set (semantic_lines env ms). CHR 0x0A \<notin> set l) \<longrightarrow>
      length (filter (\<lambda>c. c = CHR 0x0A) (py_join nl (semantic_lines env ms))) =
        length (semantic_lines env ms) - 1)"
proof (intro conjI impI)
  show "semantic_lines env ms = map (render_match env) (take 8 ms)"
    by (rule semantic_lines_eq)
  show "length (semantic_lines env ms) = min 8 (length ms)"
    by (simp add: semantic_lines_eq min.commute)
  show "length (semantic_lines env ms) \<le> 10"
    by (simp add: semantic_lines_eq)
  show "length (semantic_lines env ms) = 8" if "length ms = 12"
    using that by (simp add: semantic_lines_eq)
  show "length (vec_context env ms) \<le> 8"
    by (simp add: vec_context_length)
  show "take 10 (vec_context env ms) = vec_context env ms"
    by (simp add: vec_context_length)
  show "(\<exists>e. build_prompt env q ms facts conns = Inl e) \<or>
    (\<exists>before after.
       build_prompt env q ms facts conns =
         Inr [\<lparr>role = ''system'', content = system_prompt\<rparr>,
              \<lparr>role = ''user'',
               content = before @ semantic_header @ py_join nl (semantic_lines env ms) @ nl @ nl @
                         graph_header @ after\<rparr>])"
    by (rule build_prompt_raises_or_user_message)
  show "\<exists>before after.
         build_prompt env q ms facts conns =
           Inr [\<lparr>role = ''system'', content = system_prompt\<rparr>,
                \<lparr>role = ''user'',
                 content = before @ semantic_header @ py_join nl (semantic_lines env ms) @ nl @ nl @
                           graph_header @ after\<rparr>]"
    if "detect_theme q = [] \<or> (\<forall>f \<in> set facts. target_name f \<noteq> None)"
    using that by (rule build_prompt_user_message)
  show "length (filter (\<lambda>c. c = CHR 0x0A) (py_join nl (semantic_lines env ms))) =
        length (semantic_lines env ms) - 1"
    if "\<forall>l \<in> set (semantic_lines env ms). CHR 0x0A \<notin> set l"
    using that by (rule newlines_in_join)
qed

lemma render_first:
  "render_match sample_env (hd sample_matches) =
     ''- [attraction_1] Hoan Kiem Lake (Attraction) in Hanoi - Score: 0.920 | Tags: lake, sunset, walk''"
  by (simp add: render_match_def sample_matches_def sample_env_def sample_format_def
      meta_get_def meta_tags_def score_of_def Let_def)

lemma render_second:
  "render_match sample_env (sample_matches ! 1) =
     ''- [hotel_9] Lotus Hotel (N/A) in Hue - Score: 0.810''"
  by (simp add: render_match_def sample_matches_def sample_env_def sample_format_def
      meta_get_def meta_tags_def score_of_def Let_def)

lemma render_third:
  "render_match sample_env (sample_matches ! 2) =
     ''- [city_hue] N/A (N/A) in N/A - Score: 0.640''"
  by (simp add: render_match_def sample_matches_def sample_env_def sample_format_def
      meta_get_def meta_tags_def score_of_def Let_def)

lemma twelve_length: "length twelve_matches = 12"
  by (simp add: twelve_matches_def sample_matches_def numeral_eq_Suc)

theorem semantic_section_lines_witness:
  "length twelve_matches = 12 \<and>
   length (semantic_lines sample_env twelve_matches) = 8 \<and>
   semantic_lines sample_env twelve_matches =
     map (render_match sample_env) (take 8 twelve_matches) \<and>
   list_all (\<lambda>l. CHR 0x0A \<notin> set l) (semantic_lines sample_env twelve_matches) \<and>
   length (filter (\<lambda>c. c = CHR 0x0A) (py_join nl (semantic_lines sample_env twelve_matches))) = 7 \<and>
   list_all (\<lambda>f. target_name f \<noteq> None) [cruise_fact, museum_fact] \<and>
   (\<exists>msgs. build_prompt sample_env ''A romantic trip'' twelve_matches
      [cruise_fact, museum_fact] [] = Inr msgs)"
proof -
  have r: "map (render_match sample_env) sample_matches =
     [''- [attraction_1] Hoan Kiem Lake (Attraction) in Hanoi - Score: 0.920 | Tags: lake, sunset, walk'',
      ''- [hotel_9] Lotus Hotel (N/A) in Hue - Score: 0.810'',
      ''- [city_hue] N/A (N/A) in N/A - Score: 0.640'']"
    using render_first render_second render_third by (simp add: sample_matches_def)
  have t: "take 8 twelve_matches = sample_matches @ sample_matches @ take 2 sample_matches"
    by (simp add: twelve_matches_def sample_matches_def numeral_eq_Suc)
  have n: "list_all (\<lambda>l. CHR 0x0A \<notin> set l) (semantic_lines sample_env twelve_matches)"
    using r by (simp add: semantic_lines_eq t take_map [symmetric])
  then have b: "\<forall>l \<in> set (semantic_lines sample_env twelve_matches). CHR 0x0A \<notin> set l"
    by (simp add: list_all_iff)
  note inst = semantic_section_lines [where env = sample_env and ms = twelve_matches
      and q = "''A romantic trip''" and facts = "[cruise_fact, museum_fact]" and conns = "[]"]
  have named: "\<forall>f \<in> set [cruise_fact, museum_fact]. target_name f \<noteq> None"
    by (simp add: sample_names)
  from inst named
  have p: "\<exists>msgs. build_prompt sample_env ''A romantic trip'' twelve_matches
      [cruise_fact, museum_fact] [] = Inr msgs"
    by blast
  from named have na: "list_all (\<lambda>f. target_name f \<noteq> None) [cruise_fact, museum_fact]"
    by (simp add: list_all_iff)
  from inst twelve_length
  have l: "length (semantic_lines sample_env twelve_matches) = 8" by blast
  from inst have e: "semantic_lines sample_env twelve_matches =
      map (render_match sample_env) (take 8 twelve_matches)" by blast
  from inst b
  have "length (filter (\<lambda>c. c = CHR 0x0A) (py_join nl (semantic_lines sample_env twelve_matches))) =
      length (semantic_lines sample_env twelve_matches) - 1" by blast
  with l have c: "length (filter (\<lambda>c. c = CHR 0x0A)
      (py_join nl (semantic_lines sample_env twelve_matches))) = 7" by simp
  from twelve_length l e n c na p show ?thesis by (simp only: simp_thms)
qed

section \<open>Properties of the completion\<close>

lemma ask_answer:
  "fst (ask env st (Some q)) =
     (if py_strip q = [] then Error ''Empty query'' 400
      else case ask_prompt env st (py_strip q) of
             Inl e \<Rightarrow> Error (py_str_exn e) 500
           | Inr prompt \<Rightarrow> Answer (call_chat env prompt))"
  by (simp add: ask_def ask_prompt_def Let_def split: prod.splits sum.splits)

lemma ask_prompt_no_theme:
  "detect_theme q = [] \<Longrightarrow> \<exists>prompt. ask_prompt env st q = Inr prompt"
proof -
  assume t: "detect_theme q = []"
  obtain ms st1 where a: "pinecone_query env st q TOP_K = (ms, st1)"
    by (cases "pinecone_query env st q TOP_K")
  obtain facts conns st2 where b: "fetch_graph_context env st1 (map match_id ms) = (facts, conns, st2)"
    by (cases "fetch_graph_context env st1 (map match_id ms)")
  from t have "\<exists>before after.
     build_prompt env q ms facts conns =
       Inr [\<lparr>role = ''system'', content = system_prompt\<rparr>,
            \<lparr>role = ''user'',
             content = before @ semantic_header @ py_join nl (semantic_lines env ms) @ nl @ nl @
                       graph_header @ after\<rparr>]"
    by (simp only: build_prompt_user_message simp_thms)
  then show ?thesis by (auto simp: ask_prompt_def a b)
qed

text \<open>
  C9. When the call to the chat service raises, \<open>call_chat\<close> returns the text
  \<open>Error calling OpenAI:\<close> followed by the message of the exception, which starts with
  \<open>Error calling\<close>; and when the call fails on the prompt that the handler builds for a
  non-empty query, the handler responds with that text in the answer field.
\<close>

theorem call_chat_failure_answer:
  "(chat_create env msgs = Inl e \<longrightarrow>
      call_chat env msgs = ''Error calling OpenAI: '' @ e \<and>
      startswith (call_chat env msgs) ''Error calling'') \<and>
   (py_strip q \<noteq> [] \<and> ask_prompt env st (py_strip q) = Inr prompt \<and>
    chat_create env prompt = Inl e \<longrightarrow>
      fst (ask env st (Some q)) = Answer (''Error calling OpenAI: '' @ e))"
  by (simp add: call_chat_def ask_answer)

lemma strip_sample: "py_strip ''  a weekend in Hue '' = ''a weekend in Hue''"
  by code_simp

lemma no_theme_sample: "detect_theme ''a weekend in Hue'' = []"
  by code_simp

theorem call_chat_failure_answer_witness:
  "chat_create chat_down_env [\<lparr>role = ''user'', content = ''Plan a day in Hue''\<rparr>] =
     Inl ''rate limit reached'' \<and>
   call_chat chat_down_env [\<lparr>role = ''user'', content = ''Plan a day in Hue''\<rparr>] =
     ''Error calling OpenAI: rate limit reached'' \<and>
   py_strip ''  a weekend in Hue '' \<noteq> [] \<and>
   (\<exists>prompt. ask_prompt chat_down_env fresh_state (py_strip ''  a weekend in Hue '') = Inr prompt \<and>
      chat_create chat_down_env prompt = Inl ''rate limit reached'') \<and>
   fst (ask chat_down_env fresh_state (Some ''  a weekend in Hue '')) =
     Answer ''Error calling OpenAI: rate limit reached''"
proof -
  have c: "\<And>ms. chat_create chat_down_env ms = Inl ''rate limit reached''"
    by (simp add: chat_down_env_def)
  have s: "py_strip ''  a weekend in Hue '' \<noteq> []"
    by (simp add: strip_sample)
  obtain prompt where p: "ask_prompt chat_down_env fresh_state (py_strip ''  a weekend in Hue '') =
      Inr prompt"
    using ask_prompt_no_theme [of "py_strip ''  a weekend in Hue ''" chat_down_env fresh_state]
    by (auto simp: strip_sample no_theme_sample)
  from call_chat_failure_answer [of chat_down_env
        "[\<lparr>role = ''user'', content = ''Plan a day in Hue''\<rparr>]" "''rate limit reached''"
        "''  a weekend in Hue ''" fresh_state prompt] c s p
  have "call_chat chat_down_env [\<lparr>role = ''user'', content = ''Plan a day in Hue''\<rparr>] =
     ''Error calling OpenAI: rate limit reached''"
    and "fst (ask chat_down_env fresh_state (Some ''  a weekend in Hue '')) =
     Answer ''Error calling OpenAI: rate limit reached''"
    by simp_all
  with c s p show ?thesis by blast
qed

text \<open>
  The handler answers 500 when the prompt assembly raises: here the query names a theme
  and the one neighbour of every entity has no name.
\<close>

lemma ask_nameless:
  "fst (ask (sample_env\<lparr>neighbours := (\<lambda>nid. ([cafe_row\<lparr>r_name := None\<rparr>], None))\<rparr>)
          fresh_state (Some ''a romantic weekend'')) =
     Error none_has_no_lower 500"
proof -
  let ?env = "sample_env\<lparr>neighbours := (\<lambda>nid. ([cafe_row\<lparr>r_name := None\<rparr>], None))\<rparr>"
  have s: "py_strip ''a romantic weekend'' = ''a romantic weekend''" by code_simp
  have t: "detect_theme ''a romantic weekend'' \<noteq> []" by code_simp
  have m: "fst (pinecone_query ?env fresh_state ''a romantic weekend'' TOP_K) = sample_matches"
    by (simp add: pinecone_query_result sample_env_def TOP_K_def sample_matches_def)
  obtain ms st1 where a: "pinecone_query ?env fresh_state ''a romantic weekend'' TOP_K = (ms, st1)"
    by (cases "pinecone_query ?env fresh_state ''a romantic weekend'' TOP_K")
  with m have ms: "ms = sample_matches" by simp
  obtain facts conns st2 where b: "fetch_graph_context ?env st1 (map match_id ms) = (facts, conns, st2)"
    by (cases "fetch_graph_context ?env st1 (map match_id ms)")
  have "fst (fetch_graph_context ?env st1 (map match_id ms)) =
      concat (map (facts_for ?env) (map match_id ms))"
    by (rule fetch_facts)
  with b have "facts = concat (map (facts_for ?env) (map match_id ms))" by simp
  then have "\<exists>f \<in> set facts. target_name f = None"
    by (simp add: ms sample_matches_def facts_for_def make_fact_def)
  with t have "build_prompt ?env ''a romantic weekend'' ms facts conns =
      Inl (AttributeError none_has_no_lower)"
    by (rule build_prompt_nameless)
  then have "ask_prompt ?env fresh_state ''a romantic weekend'' =
      Inl (AttributeError none_has_no_lower)"
    by (simp add: ask_prompt_def a b)
  then show ?thesis by (simp add: ask_answer s py_str_exn_def)
qed

end
